theory Spec2Isabelle
  imports Complex_Main
begin

section \<open>Data model\<close>

text \<open>
  The documents of the two collections, as the Mongoose schemas of \<^verbatim>\<open>models/Course.js\<close>
  and \<^verbatim>\<open>models/User.js\<close> declare them. An ObjectId is represented by its string form
  (the value of \<^verbatim>\<open>toString()\<close> and of the \<^verbatim>\<open>id\<close> virtual), so that the comparisons
  \<^verbatim>\<open>a.toString() !== b.toString()\<close> of the source are inequality of ids, and
  \<^verbatim>\<open>array.includes(id)\<close> on an array of references is list membership. A JavaScript
  Number is an exact rational here: the sums of the source are sums of small integers and
  each average is one quotient. Timestamps are natural numbers. Lessons, prerequisites,
  the creation time of a review and the profile fields of an account take no part in the
  operations below and are left out.
\<close>

type_synonym objectId = string

datatype role = Student | Instructor | Admin

fun role_name :: "role \<Rightarrow> string" where
  "role_name Student = ''student''"
| "role_name Instructor = ''instructor''"
| "role_name Admin = ''admin''"

record review =
  user :: objectId
  review_rating :: rat
  comment :: "string option"

record rating_summary =
  average :: rat
  count :: nat

text \<open>
  \<open>course_view\<close> holds the fields that survive the projection
  \<^verbatim>\<open>.select('-lessons -reviews')\<close> of the list route; a stored course extends it with
  the embedded review list. \<open>instructorId\<close> is optional in the schema
  (\<^verbatim>\<open>required: false\<close>).
\<close>

record course_view =
  course_id :: objectId
  title :: string
  description :: string
  instructor :: string
  instructorId :: "objectId option"
  category :: string
  level :: string
  price :: rat
  tags :: "string list"
  enrolledStudents :: "objectId list"
  rating :: rating_summary
  isPublished :: bool
  isFeatured :: bool
  createdAt :: nat

record course = course_view +
  reviews :: "review list"

text \<open>
  \<open>user_view\<close> is an account as \<^verbatim>\<open>.select('-password')\<close> returns it; the stored
  document adds the password hash.
\<close>

record user_view =
  user_id :: objectId
  name :: string
  email :: string
  role :: role
  enrolledCourses :: "objectId list"
  completedCourses :: "objectId list"
  isActive :: bool
  lastLogin :: "nat option"

record user = user_view +
  password :: string

text \<open>
  The database: the two collections in insertion order. \<^verbatim>\<open>findById\<close> returns the
  document with the given id, \<^verbatim>\<open>save\<close> writes a loaded document back in place.
\<close>

record db =
  courses :: "course list"
  users :: "user list"

definition findCourseById :: "db \<Rightarrow> objectId \<Rightarrow> course option" where
  "findCourseById d cid = find (\<lambda>c. course_id c = cid) (courses d)"

definition findUserById :: "db \<Rightarrow> objectId \<Rightarrow> user option" where
  "findUserById d uid = find (\<lambda>u. user_id u = uid) (users d)"

definition saveCourse :: "course \<Rightarrow> db \<Rightarrow> db" where
  "saveCourse c d = d\<lparr>courses := map (\<lambda>x. if course_id x = course_id c then c else x) (courses d)\<rparr>"

definition saveUser :: "user \<Rightarrow> db \<Rightarrow> db" where
  "saveUser u d = d\<lparr>users := map (\<lambda>x. if user_id x = user_id u then u else x) (users d)\<rparr>"

text \<open>
  A route answers with a status and a JSON body (\<open>Reply\<close>), or with a status and
  \<^verbatim>\<open>{error: message}\<close> (\<open>Failure\<close>). A middleware either calls \<^verbatim>\<open>next()\<close> with what
  it attached to the request, or answers itself.
\<close>

datatype 'a response = Reply nat 'a | Failure nat string

datatype 'a middleware = Next 'a | Reject nat string

section \<open>Document methods\<close>

text \<open>
  \<^verbatim>\<open>courseSchema.methods\<close> and \<^verbatim>\<open>userSchema.methods\<close>. Each takes the document it
  is called on and the database, and returns the document and the database after it; a
  method saves only where the source does. A \<^verbatim>\<open>save()\<close> is taken to succeed: the stored
  documents and what the routes hand to the methods meet the schema's validators (the
  review route checks the rating and the comment before it calls \<^verbatim>\<open>addReview\<close>).
\<close>

definition enrollStudent :: "objectId \<Rightarrow> course \<Rightarrow> db \<Rightarrow> course \<times> db" where
  "enrollStudent studentId c d =
     (if studentId \<notin> set (enrolledStudents c)
      then (let c' = c\<lparr>enrolledStudents := enrolledStudents c @ [studentId]\<rparr>
            in (c', saveCourse c' d))
      else (c, d))"

definition unenrollStudent :: "objectId \<Rightarrow> course \<Rightarrow> db \<Rightarrow> course \<times> db" where
  "unenrollStudent studentId c d =
     (let c' = c\<lparr>enrolledStudents := filter (\<lambda>i. i \<noteq> studentId) (enrolledStudents c)\<rparr>
      in (c', saveCourse c' d))"

text \<open>
  \<^verbatim>\<open>addReview\<close>: drop the caller's earlier review, push the new one, recompute the
  aggregate with \<^verbatim>\<open>reduce\<close> and the length of the list, save. The list is never empty
  when the quotient is taken, because the push precedes it.
\<close>

definition addReview :: "objectId \<Rightarrow> rat \<Rightarrow> string option \<Rightarrow> course \<Rightarrow> db \<Rightarrow> course \<times> db" where
  "addReview userId r cmt c d =
     (let rs = filter (\<lambda>rv. user rv \<noteq> userId) (reviews c)
                 @ [\<lparr>user = userId, review_rating = r, comment = cmt\<rparr>];
          totalRating = foldl (\<lambda>sum rv. sum + review_rating rv) 0 rs;
          c' = c\<lparr>rating := \<lparr>average = totalRating / of_nat (length rs), count = length rs\<rparr>,
                 reviews := rs\<rparr>
      in (c', saveCourse c' d))"

definition enrollInCourse :: "objectId \<Rightarrow> user \<Rightarrow> db \<Rightarrow> user \<times> db" where
  "enrollInCourse courseId u d =
     (if courseId \<notin> set (enrolledCourses u)
      then (let u' = u\<lparr>enrolledCourses := enrolledCourses u @ [courseId]\<rparr>
            in (u', saveUser u' d))
      else (u, d))"

definition unenrollFromCourse :: "objectId \<Rightarrow> user \<Rightarrow> db \<Rightarrow> user \<times> db" where
  "unenrollFromCourse courseId u d =
     (let u' = u\<lparr>enrolledCourses := filter (\<lambda>i. i \<noteq> courseId) (enrolledCourses u)\<rparr>
      in (u', saveUser u' d))"

definition completeCourse :: "objectId \<Rightarrow> user \<Rightarrow> db \<Rightarrow> user \<times> db" where
  "completeCourse courseId u d =
     (if courseId \<notin> set (completedCourses u)
      then (let u' = u\<lparr>completedCourses := completedCourses u @ [courseId]\<rparr>
            in (u', saveUser u' d))
      else (u, d))"

definition updateLastLogin :: "nat \<Rightarrow> user \<Rightarrow> db \<Rightarrow> user \<times> db" where
  "updateLastLogin now u d =
     (let u' = u\<lparr>lastLogin := Some now\<rparr> in (u', saveUser u' d))"




text \<open>
  A course as \<^verbatim>\<open>Course.create\<close> leaves it when only the required fields are given: the
  schema defaults (\<^verbatim>\<open>rating = {average: 0, count: 0}\<close>, no reviews, nobody enrolled,
  published, not featured, price 0).
\<close>

definition new_course :: "objectId \<Rightarrow> string \<Rightarrow> string \<Rightarrow> string \<Rightarrow> objectId option
    \<Rightarrow> string \<Rightarrow> string \<Rightarrow> nat \<Rightarrow> course" where
  "new_course cid ttl descr instr owner cat lvl now =
     \<lparr>course_id = cid, title = ttl, description = descr, instructor = instr,
      instructorId = owner, category = cat, level = lvl, price = 0, tags = [],
      enrolledStudents = [], rating = \<lparr>average = 0, count = 0\<rparr>,
      isPublished = True, isFeatured = False, createdAt = now, reviews = []\<rparr>"

section \<open>Access control\<close>

text \<open>
  \<^verbatim>\<open>middleware/auth.js\<close>. The request contributes its \<^verbatim>\<open>Authorization\<close> header
  (\<open>None\<close> when absent). \<^verbatim>\<open>jwt.verify\<close> is the library's: it is a parameter
  \<open>jwt_verify\<close>, giving the account id of the payload, or \<open>None\<close> where the library
  throws (bad signature, expired, malformed). The library also throws when it is handed no
  token at all, which \<open>verify_header\<close> writes out.
\<close>

fun split_on :: "char \<Rightarrow> string \<Rightarrow> string list" where
  "split_on sep [] = [[]]"
| "split_on sep (x # xs) =
     (if x = sep then [] # split_on sep xs
      else (case split_on sep xs of
              [] \<Rightarrow> [[x]]
            | w # ws \<Rightarrow> (x # w) # ws))"

definition startsWith :: "string \<Rightarrow> string \<Rightarrow> bool" where
  "startsWith s p \<longleftrightarrow> take (length p) s = p"

text \<open>\<^verbatim>\<open>req.headers.authorization.split(' ')[1]\<close>; \<open>None\<close> is \<^verbatim>\<open>undefined\<close>.\<close>

definition bearer_token :: "string \<Rightarrow> string option" where
  "bearer_token h = (case split_on CHR '' '' h of a # t # _ \<Rightarrow> Some t | _ \<Rightarrow> None)"

definition verify_header :: "(string \<Rightarrow> objectId option) \<Rightarrow> string \<Rightarrow> objectId option" where
  "verify_header jwt_verify h =
     (case bearer_token h of
        None \<Rightarrow> None
      | Some t \<Rightarrow> if t = [] then None else jwt_verify t)"

definition protect :: "(string \<Rightarrow> objectId option) \<Rightarrow> db \<Rightarrow> string option \<Rightarrow> user_view middleware" where
  "protect jwt_verify d authorization =
     (case authorization of
        None \<Rightarrow> Reject 401 ''Not authorized, no token''
      | Some h \<Rightarrow>
          if h \<noteq> [] \<and> startsWith h ''Bearer'' then
            (case verify_header jwt_verify h of
               None \<Rightarrow> Reject 401 ''Not authorized, token failed''
             | Some decoded_id \<Rightarrow>
                 (case findUserById d decoded_id of
                    None \<Rightarrow> Reject 401 ''User not found''
                  | Some u \<Rightarrow>
                      if \<not> isActive u then Reject 401 ''Account is deactivated''
                      else Next (user_view.truncate u)))
          else Reject 401 ''Not authorized, no token'')"

definition authorize :: "role list \<Rightarrow> user_view \<Rightarrow> user_view middleware" where
  "authorize roles req_user =
     (if role req_user \<notin> set roles
      then Reject 403 (''User role '' @ role_name (role req_user)
                        @ '' is not authorized to access this resource'')
      else Next req_user)"

text \<open>
  \<^verbatim>\<open>optionalAuth\<close> attaches \<^verbatim>\<open>req.user\<close> (\<open>None\<close> for \<^verbatim>\<open>null\<close> or
  \<^verbatim>\<open>undefined\<close>, the anonymous caller) and always calls \<^verbatim>\<open>next()\<close>.
\<close>

definition optionalAuth :: "(string \<Rightarrow> objectId option) \<Rightarrow> db \<Rightarrow> string option
    \<Rightarrow> user_view option middleware" where
  "optionalAuth jwt_verify d authorization =
     (case authorization of
        None \<Rightarrow> Next None
      | Some h \<Rightarrow>
          if h \<noteq> [] \<and> startsWith h ''Bearer'' then
            (case verify_header jwt_verify h of
               None \<Rightarrow> Next None
             | Some decoded_id \<Rightarrow>
                 Next (map_option user_view.truncate (findUserById d decoded_id)))
          else Next None)"

section \<open>Enrollment routes\<close>

text \<open>
  The handlers of \<^verbatim>\<open>POST /:id/enroll\<close>, \<^verbatim>\<open>DELETE /:id/enroll\<close> and
  \<^verbatim>\<open>POST /:id/complete\<close>, behind \<open>protect\<close>: \<open>req_user\<close> is what \<open>protect\<close> attached.
  Each returns its answer and the database it leaves. When \<^verbatim>\<open>User.findById\<close> yields
  \<^verbatim>\<open>null\<close>, the method call on it throws and the \<^verbatim>\<open>catch\<close> answers 500, after the
  course was already saved. The answer of the completion route also carries the time of
  the request (\<^verbatim>\<open>completedAt: new Date()\<close>), which is left out.
\<close>

record enroll_reply =
  enroll_message :: string
  enroll_id :: objectId
  enroll_title :: string
  enroll_instructor :: string

definition enroll :: "db \<Rightarrow> objectId \<Rightarrow> user_view \<Rightarrow> enroll_reply response \<times> db" where
  "enroll d cid req_user =
     (case findCourseById d cid of
        None \<Rightarrow> (Failure 404 ''Course not found'', d)
      | Some c \<Rightarrow>
          if \<not> isPublished c then (Failure 404 ''Course not found'', d)
          else if user_id req_user \<in> set (enrolledStudents c)
          then (Failure 400 ''Already enrolled in this course'', d)
          else (case enrollStudent (user_id req_user) c d of
                  (c', d1) \<Rightarrow>
                    (case findUserById d1 (user_id req_user) of
                       None \<Rightarrow> (Failure 500 ''Server error while enrolling in course'', d1)
                     | Some u \<Rightarrow>
                         (case enrollInCourse (course_id c') u d1 of
                            (u', d2) \<Rightarrow>
                              (Reply 200 \<lparr>enroll_message = ''Successfully enrolled in course'',
                                          enroll_id = course_id c', enroll_title = title c',
                                          enroll_instructor = instructor c'\<rparr>, d2)))))"

definition unenroll :: "db \<Rightarrow> objectId \<Rightarrow> user_view \<Rightarrow> string response \<times> db" where
  "unenroll d cid req_user =
     (case findCourseById d cid of
        None \<Rightarrow> (Failure 404 ''Course not found'', d)
      | Some c \<Rightarrow>
          if user_id req_user \<notin> set (enrolledStudents c)
          then (Failure 400 ''Not enrolled in this course'', d)
          else (case unenrollStudent (user_id req_user) c d of
                  (c', d1) \<Rightarrow>
                    (case findUserById d1 (user_id req_user) of
                       None \<Rightarrow> (Failure 500 ''Server error while unenrolling from course'', d1)
                     | Some u \<Rightarrow>
                         (case unenrollFromCourse (course_id c') u d1 of
                            (u', d2) \<Rightarrow> (Reply 200 ''Successfully unenrolled from course'', d2)))))"

definition complete :: "db \<Rightarrow> objectId \<Rightarrow> user_view \<Rightarrow> string response \<times> db" where
  "complete d cid req_user =
     (case findCourseById d cid of
        None \<Rightarrow> (Failure 404 ''Course not found'', d)
      | Some c \<Rightarrow>
          if user_id req_user \<notin> set (enrolledStudents c)
          then (Failure 400 ''Must be enrolled to complete this course'', d)
          else (case findUserById d (user_id req_user) of
                  None \<Rightarrow> (Failure 500 ''Server error while marking course as completed'', d)
                | Some u \<Rightarrow>
                    if course_id c \<in> set (completedCourses u)
                    then (Failure 400 ''Course already completed'', d)
                    else (case completeCourse (course_id c) u d of
                            (u', d1) \<Rightarrow> (Reply 200 ''Course marked as completed'', d1))))"

section \<open>Course management routes\<close>

text \<open>
  \<^verbatim>\<open>PUT /:id\<close>, \<^verbatim>\<open>DELETE /:id\<close> and \<^verbatim>\<open>GET /:id/stats\<close>, each behind \<open>protect\<close> and
  \<^verbatim>\<open>authorize('admin', 'instructor')\<close>. The ownership test of the three handlers reads
  \<^verbatim>\<open>course.instructorId.toString()\<close> first: on a course without \<open>instructorId\<close> that
  call throws, and the \<^verbatim>\<open>catch\<close> of the handler answers 500.
\<close>

definition and_then :: "'a middleware \<Rightarrow> ('a \<Rightarrow> 'b middleware) \<Rightarrow> 'b middleware" where
  "and_then m f = (case m of Reject s msg \<Rightarrow> Reject s msg | Next a \<Rightarrow> f a)"

definition guarded :: "'u middleware \<Rightarrow> ('u \<Rightarrow> 'a response \<times> db) \<Rightarrow> db \<Rightarrow> 'a response \<times> db" where
  "guarded m handler d = (case m of Reject s msg \<Rightarrow> (Failure s msg, d) | Next u \<Rightarrow> handler u)"

fun join_with :: "string \<Rightarrow> string list \<Rightarrow> string" where
  "join_with sep [] = []"
| "join_with sep [x] = x"
| "join_with sep (x # y # ys) = x @ sep @ join_with sep (y # ys)"

record course_reply =
  reply_message :: string
  reply_course :: course

text \<open>
  The update handler. Two things of the request are parameters: \<open>errors\<close>, the messages
  that \<^verbatim>\<open>validationResult(req)\<close> holds for the body, and \<open>upd\<close>, what
  \<^verbatim>\<open>findByIdAndUpdate(id, req.body, {new: true, runValidators: true})\<close> makes of the
  stored course (\<open>None\<close> where a schema validator or a cast rejects the body and the call
  throws).
\<close>

definition update_course :: "string list \<Rightarrow> (course \<Rightarrow> course option) \<Rightarrow> db \<Rightarrow> objectId
    \<Rightarrow> user_view \<Rightarrow> course_reply response \<times> db" where
  "update_course errors upd d cid req_user =
     (if errors \<noteq> [] then (Failure 400 (join_with '', '' errors), d)
      else
        (case findCourseById d cid of
           None \<Rightarrow> (Failure 404 ''Course not found'', d)
         | Some c \<Rightarrow>
             (case instructorId c of
                None \<Rightarrow> (Failure 500 ''Server error while updating course'', d)
              | Some owner \<Rightarrow>
                  if owner \<noteq> user_id req_user \<and> role req_user \<noteq> Admin
                  then (Failure 403 ''Not authorized to update this course'', d)
                  else
                    (case upd c of
                       None \<Rightarrow> (Failure 500 ''Server error while updating course'', d)
                     | Some c' \<Rightarrow>
                         (Reply 200 \<lparr>reply_message = ''Course updated successfully'',
                                     reply_course = c'\<rparr>,
                          d\<lparr>courses := map (\<lambda>x. if course_id x = cid then c' else x)
                                          (courses d)\<rparr>)))))"

text \<open>
  \<^verbatim>\<open>User.updateMany({enrolledCourses: id}, {$pull: {enrolledCourses: id,
  completedCourses: id}})\<close> and \<^verbatim>\<open>Course.findByIdAndDelete\<close>.
\<close>

definition pull_course :: "objectId \<Rightarrow> user \<Rightarrow> user" where
  "pull_course cid u =
     (if cid \<in> set (enrolledCourses u)
      then u\<lparr>enrolledCourses := removeAll cid (enrolledCourses u),
             completedCourses := removeAll cid (completedCourses u)\<rparr>
      else u)"

fun delete_first :: "('a \<Rightarrow> bool) \<Rightarrow> 'a list \<Rightarrow> 'a list" where
  "delete_first P [] = []"
| "delete_first P (x # xs) = (if P x then xs else x # delete_first P xs)"

definition delete_course :: "db \<Rightarrow> objectId \<Rightarrow> user_view \<Rightarrow> string response \<times> db" where
  "delete_course d cid req_user =
     (case findCourseById d cid of
        None \<Rightarrow> (Failure 404 ''Course not found'', d)
      | Some c \<Rightarrow>
          (case instructorId c of
             None \<Rightarrow> (Failure 500 ''Server error while deleting course'', d)
           | Some owner \<Rightarrow>
               if owner \<noteq> user_id req_user \<and> role req_user \<noteq> Admin
               then (Failure 403 ''Not authorized to delete this course'', d)
               else
                 (let d1 = d\<lparr>users := map (pull_course (course_id c)) (users d)\<rparr>;
                      d2 = d1\<lparr>courses := delete_first (\<lambda>x. course_id x = cid) (courses d1)\<rparr>
                  in (Reply 200 ''Course deleted successfully'', d2))))"

text \<open>
  The statistics. \<^verbatim>\<open>populate('enrolledStudents', 'name email createdAt')\<close> replaces the
  references by the accounts found (a reference to no account drops out), so the lengths
  of the source count those. \<open>completionRate\<close> is the number before
  \<^verbatim>\<open>toFixed(2)\<close> formats it.
\<close>

record course_stats =
  courseTitle :: string
  totalEnrolled :: nat
  totalCompleted :: nat
  completionRate :: rat
  averageRating :: rat
  totalReviews :: nat
  revenue :: rat
  stats_students :: "(objectId \<times> string \<times> string) list"

definition populate_students :: "db \<Rightarrow> objectId list \<Rightarrow> (objectId \<times> string \<times> string) list" where
  "populate_students d ids =
     List.map_filter (\<lambda>i. map_option (\<lambda>u. (user_id u, name u, email u)) (findUserById d i)) ids"

definition get_stats :: "db \<Rightarrow> objectId \<Rightarrow> user_view \<Rightarrow> course_stats response \<times> db" where
  "get_stats d cid req_user =
     (case findCourseById d cid of
        None \<Rightarrow> (Failure 404 ''Course not found'', d)
      | Some c \<Rightarrow>
          (case instructorId c of
             None \<Rightarrow> (Failure 500 ''Server error while fetching course statistics'', d)
           | Some owner \<Rightarrow>
               if owner \<noteq> user_id req_user \<and> role req_user \<noteq> Admin
               then (Failure 403 ''Not authorized to view course statistics'', d)
               else
                 (let students = populate_students d (enrolledStudents c);
                      completedCount = length (filter (\<lambda>u. course_id c \<in> set (completedCourses u))
                                                 (users d))
                  in (Reply 200
                        \<lparr>courseTitle = title c,
                         totalEnrolled = length students,
                         totalCompleted = completedCount,
                         completionRate =
                           (if length students > 0
                            then (of_nat completedCount / of_nat (length students)) * 100
                            else 0),
                         averageRating = average (rating c),
                         totalReviews = count (rating c),
                         revenue = price c * of_nat (length students),
                         stats_students = students\<rparr>, d))))"

text \<open>The three routes with their middleware, from the \<^verbatim>\<open>Authorization\<close> header on.\<close>

definition owner_guard :: "(string \<Rightarrow> objectId option) \<Rightarrow> db \<Rightarrow> string option \<Rightarrow> user_view middleware" where
  "owner_guard jwt_verify d authorization =
     and_then (protect jwt_verify d authorization) (authorize [Admin, Instructor])"

definition put_course :: "(string \<Rightarrow> objectId option) \<Rightarrow> string option \<Rightarrow> string list
    \<Rightarrow> (course \<Rightarrow> course option) \<Rightarrow> db \<Rightarrow> objectId \<Rightarrow> course_reply response \<times> db" where
  "put_course jwt_verify authorization errors upd d cid =
     guarded (owner_guard jwt_verify d authorization) (update_course errors upd d cid) d"

definition delete_course_route :: "(string \<Rightarrow> objectId option) \<Rightarrow> string option \<Rightarrow> db \<Rightarrow> objectId
    \<Rightarrow> string response \<times> db" where
  "delete_course_route jwt_verify authorization d cid =
     guarded (owner_guard jwt_verify d authorization) (delete_course d cid) d"

definition get_stats_route :: "(string \<Rightarrow> objectId option) \<Rightarrow> string option \<Rightarrow> db \<Rightarrow> objectId
    \<Rightarrow> course_stats response \<times> db" where
  "get_stats_route jwt_verify authorization d cid =
     guarded (owner_guard jwt_verify d authorization) (get_stats d cid) d"

section \<open>Catalog queries\<close>

text \<open>
  A Mongo filter as the source builds it: an object whose keys are conditions that a
  document must all meet. \<open>f_search\<close> is the \<^verbatim>\<open>$or\<close> of the four regular-expression
  conditions of the list route and carries the compiled expression as a predicate on
  strings.
\<close>

record course_filter =
  f_isPublished :: "bool option"
  f_isFeatured :: "bool option"
  f_category :: "string option"
  f_level :: "string option"
  f_price_gte :: "rat option"
  f_price_lte :: "rat option"
  f_search :: "(string \<Rightarrow> bool) option"

definition no_filter :: course_filter where
  "no_filter = \<lparr>f_isPublished = None, f_isFeatured = None, f_category = None, f_level = None,
                 f_price_gte = None, f_price_lte = None, f_search = None\<rparr>"

definition holds :: "('a \<Rightarrow> bool) \<Rightarrow> 'a option \<Rightarrow> bool" where
  "holds P cond = (case cond of None \<Rightarrow> True | Some v \<Rightarrow> P v)"

definition matches :: "course_filter \<Rightarrow> course \<Rightarrow> bool" where
  "matches q c \<longleftrightarrow>
     holds (\<lambda>b. isPublished c = b) (f_isPublished q) \<and>
     holds (\<lambda>b. isFeatured c = b) (f_isFeatured q) \<and>
     holds (\<lambda>s. category c = s) (f_category q) \<and>
     holds (\<lambda>s. level c = s) (f_level q) \<and>
     holds (\<lambda>p. p \<le> price c) (f_price_gte q) \<and>
     holds (\<lambda>p. price c \<le> p) (f_price_lte q) \<and>
     holds (\<lambda>re. re (title c) \<or> re (description c) \<or> re (instructor c) \<or> list_ex re (tags c))
           (f_search q)"

definition find_courses :: "course_filter \<Rightarrow> db \<Rightarrow> course list" where
  "find_courses q d = filter (matches q) (courses d)"

text \<open>
  Sorting. \<open>sort_docs before\<close> orders documents so that \<open>before x y\<close> holds for \<open>x\<close>
  ahead of \<open>y\<close>. \<^verbatim>\<open>{createdAt: -1}\<close> puts the later creation time first.
  \<^verbatim>\<open>{rating: -1, createdAt: -1}\<close> names the embedded document \<open>rating\<close> as its first key:
  the database compares two such documents field by field in stored order, \<open>average\<close>
  and then \<open>count\<close>, and only documents equal in both fall to the second key.
\<close>

fun insert_doc :: "('a \<Rightarrow> 'a \<Rightarrow> bool) \<Rightarrow> 'a \<Rightarrow> 'a list \<Rightarrow> 'a list" where
  "insert_doc before x [] = [x]"
| "insert_doc before x (y # ys) =
     (if before x y then x # y # ys else y # insert_doc before x ys)"

definition sort_docs :: "('a \<Rightarrow> 'a \<Rightarrow> bool) \<Rightarrow> 'a list \<Rightarrow> 'a list" where
  "sort_docs before xs = foldr (insert_doc before) xs []"

definition newest_first :: "course \<Rightarrow> course \<Rightarrow> bool" where
  "newest_first c d \<longleftrightarrow> createdAt d \<le> createdAt c"

definition rating_less :: "rating_summary \<Rightarrow> rating_summary \<Rightarrow> bool" where
  "rating_less a b \<longleftrightarrow> average a < average b \<or> (average a = average b \<and> count a < count b)"

definition rating_then_newest :: "course \<Rightarrow> course \<Rightarrow> bool" where
  "rating_then_newest c d \<longleftrightarrow>
     rating_less (rating d) (rating c)
     \<or> (\<not> rating_less (rating c) (rating d) \<and> createdAt d \<le> createdAt c)"

text \<open>\<^verbatim>\<open>courseSchema.statics.getFeatured\<close> and \<^verbatim>\<open>getByCategory\<close>.\<close>

definition getFeatured :: "db \<Rightarrow> course list" where
  "getFeatured d =
     take 6 (sort_docs newest_first
       (find_courses (no_filter\<lparr>f_isFeatured := Some True, f_isPublished := Some True\<rparr>) d))"

definition getByCategory :: "string \<Rightarrow> db \<Rightarrow> course list" where
  "getByCategory cat d =
     sort_docs rating_then_newest
       (find_courses (no_filter\<lparr>f_category := Some cat, f_isPublished := Some True\<rparr>) d)"

text \<open>
  The list route \<^verbatim>\<open>GET /\<close>. Query parameters are strings, \<open>None\<close> when absent.
  \<^verbatim>\<open>isInt\<close> of the validator accepts an optional sign and decimal digits and compares
  the number with the bounds. What stays a parameter, in \<open>catalog_lib\<close>: the validator's
  \<^verbatim>\<open>isNumeric\<close>, \<^verbatim>\<open>parseFloat\<close>, the compilation of a case-insensitive regular
  expression, and the database's ordering for a sort string.
\<close>

record list_query =
  q_category :: "string option"
  q_level :: "string option"
  q_minPrice :: "string option"
  q_maxPrice :: "string option"
  q_search :: "string option"
  q_page :: "string option"
  q_limit :: "string option"
  q_sort :: "string option"

record catalog_lib =
  isNumeric :: "string \<Rightarrow> bool"
  parseFloat :: "string \<Rightarrow> rat"
  regex_i :: "string \<Rightarrow> string \<Rightarrow> bool"
  sort_by :: "string \<Rightarrow> course list \<Rightarrow> course list"

definition CATEGORIES :: "string list" where
  "CATEGORIES = [''Programming'', ''Data Science'', ''Design'', ''Business'', ''Marketing'',
     ''Photography'', ''Music'', ''Language'', ''Health'', ''Science'', ''Mathematics'', ''Other'']"

definition LEVELS :: "string list" where
  "LEVELS = [''Beginner'', ''Intermediate'', ''Advanced'']"

definition is_digit :: "char \<Rightarrow> bool" where
  "is_digit c \<longleftrightarrow> c \<in> set ''0123456789''"

definition digit_value :: "char \<Rightarrow> nat" where
  "digit_value c = of_char c - 48"

definition digits_value :: "string \<Rightarrow> nat" where
  "digits_value s = foldl (\<lambda>n c. 10 * n + digit_value c) 0 s"

definition parse_int :: "string \<Rightarrow> int option" where
  "parse_int s =
     (case s of
        [] \<Rightarrow> None
      | c # r \<Rightarrow>
          (let signed = (c = CHR ''-'' \<or> c = CHR ''+'');
               ds = (if signed then r else s)
           in if ds \<noteq> [] \<and> list_all is_digit ds
              then Some (if c = CHR ''-'' then - int (digits_value ds) else int (digits_value ds))
              else None))"

definition isInt :: "int option \<Rightarrow> int option \<Rightarrow> string \<Rightarrow> bool" where
  "isInt lo hi s =
     (case parse_int s of
        None \<Rightarrow> False
      | Some v \<Rightarrow> holds (\<lambda>m. m \<le> v) lo \<and> holds (\<lambda>m. v \<le> m) hi)"

text \<open>The number a validated parameter stands for (\<^verbatim>\<open>page - 1\<close>, \<^verbatim>\<open>parseInt(limit)\<close>).\<close>

definition to_number :: "string \<Rightarrow> int" where
  "to_number s = (case parse_int s of Some v \<Rightarrow> v | None \<Rightarrow> 0)"

definition is_space :: "char \<Rightarrow> bool" where
  "is_space c \<longleftrightarrow> c \<in> {CHR '' '', CHR 0x09, CHR 0x0A, CHR 0x0B, CHR 0x0C, CHR 0x0D}"

definition trim :: "string \<Rightarrow> string" where
  "trim s = rev (dropWhile is_space (rev (dropWhile is_space s)))"

text \<open>One validation chain: an absent optional field passes.\<close>

definition check :: "string option \<Rightarrow> (string \<Rightarrow> bool) \<Rightarrow> string \<Rightarrow> string list" where
  "check field valid msg =
     (case field of None \<Rightarrow> [] | Some v \<Rightarrow> if valid v then [] else [msg])"

definition truthy :: "string option \<Rightarrow> string option" where
  "truthy field = (case field of None \<Rightarrow> None | Some v \<Rightarrow> if v = [] then None else Some v)"

definition list_errors :: "catalog_lib \<Rightarrow> list_query \<Rightarrow> string list" where
  "list_errors lib q =
     check (q_category q) (\<lambda>v. v \<in> set CATEGORIES) ''Invalid value''
     @ check (q_level q) (\<lambda>v. v \<in> set LEVELS) ''Invalid value''
     @ check (q_minPrice q) (isNumeric lib) ''Min price must be a number''
     @ check (q_maxPrice q) (isNumeric lib) ''Max price must be a number''
     @ check (q_page q) (isInt (Some 1) None) ''Page must be a positive integer''
     @ check (q_limit q) (isInt (Some 1) (Some 50)) ''Limit must be between 1 and 50''"

definition list_filter :: "catalog_lib \<Rightarrow> list_query \<Rightarrow> course_filter" where
  "list_filter lib q =
     no_filter\<lparr>f_isPublished := Some True,
               f_category := truthy (q_category q),
               f_level := truthy (q_level q),
               f_price_gte := map_option (parseFloat lib) (truthy (q_minPrice q)),
               f_price_lte := map_option (parseFloat lib) (truthy (q_maxPrice q)),
               f_search := map_option (regex_i lib) (truthy (map_option trim (q_search q)))\<rparr>"

record list_reply =
  list_count :: nat
  list_total :: nat
  list_pages :: nat
  list_currentPage :: int
  list_courses :: "course_view list"

definition get_courses :: "catalog_lib \<Rightarrow> list_query \<Rightarrow> db \<Rightarrow> list_reply response" where
  "get_courses lib q d =
     (if list_errors lib q \<noteq> [] then Failure 400 (join_with '', '' (list_errors lib q))
      else
        (let page = (case q_page q of None \<Rightarrow> 1 | Some s \<Rightarrow> to_number s);
             limit = (case q_limit q of None \<Rightarrow> 12 | Some s \<Rightarrow> to_number s);
             sort = (case q_sort q of None \<Rightarrow> ''-createdAt'' | Some s \<Rightarrow> s);
             query = list_filter lib q;
             found = take (nat limit)
                       (drop (nat ((page - 1) * limit))
                          (sort_by lib sort (find_courses query d)));
             total = length (find_courses query d);
             pages = nat \<lceil>(of_nat total :: rat) / of_int limit\<rceil>
         in Reply 200 \<lparr>list_count = length found, list_total = total, list_pages = pages,
                       list_currentPage = page,
                       list_courses = map course_view.truncate found\<rparr>))"

text \<open>The handlers of \<^verbatim>\<open>GET /featured\<close> and \<^verbatim>\<open>GET /category/:category\<close>.\<close>

definition get_featured :: "db \<Rightarrow> (nat \<times> course list) response" where
  "get_featured d = (let found = getFeatured d in Reply 200 (length found, found))"

definition get_category :: "string \<Rightarrow> db \<Rightarrow> (string \<times> nat \<times> course list) response" where
  "get_category cat d = (let found = getByCategory cat d in Reply 200 (cat, length found, found))"

section \<open>Signup\<close>

text \<open>
  \<^verbatim>\<open>POST /signup\<close>. The body may carry any field; the model keeps the three the handler
  reads and \<open>body_role\<close>, a role the client may have put there. A missing field
  validates as the empty string. Parameters, in \<open>auth_lib\<close>: the validator's
  \<^verbatim>\<open>isEmail\<close> and \<^verbatim>\<open>normalizeEmail\<close>, the schema's lowercasing setter and its pattern
  for \<open>email\<close>, the bcrypt hash of the \<^verbatim>\<open>pre('save')\<close> hook, the ObjectId that
  \<^verbatim>\<open>User.create\<close> generates, and \<^verbatim>\<open>jwt.sign\<close>.
\<close>

record signup_body =
  body_name :: "string option"
  body_email :: "string option"
  body_password :: "string option"
  body_role :: "string option"

record auth_lib =
  isEmail :: "string \<Rightarrow> bool"
  normalizeEmail :: "string \<Rightarrow> string"
  toLowerCase :: "string \<Rightarrow> string"
  email_pattern :: "string \<Rightarrow> bool"
  bcrypt_hash :: "string \<Rightarrow> string"
  new_ObjectId :: "db \<Rightarrow> objectId"
  jwt_sign :: "objectId \<Rightarrow> string"

record signup_reply =
  signup_message :: string
  signup_token :: string
  signup_id :: objectId
  signup_name :: string
  signup_email :: string
  signup_role :: role
  signup_enrolledCourses :: "objectId list"

definition field_value :: "string option \<Rightarrow> string" where
  "field_value field = (case field of None \<Rightarrow> [] | Some v \<Rightarrow> v)"

definition signup_errors :: "auth_lib \<Rightarrow> signup_body \<Rightarrow> string list" where
  "signup_errors lib body =
     (let nm = trim (field_value (body_name body))
      in if 2 \<le> length nm \<and> length nm \<le> 100 then []
         else [''Name must be between 2 and 100 characters''])
     @ (if isEmail lib (field_value (body_email body)) then []
        else [''Please enter a valid email''])
     @ (if 6 \<le> length (field_value (body_password body)) then []
        else [''Password must be at least 6 characters long''])"

text \<open>
  \<^verbatim>\<open>User.create(fields)\<close>: the schema's setters and validators (the \<^verbatim>\<open>enum\<close> of
  \<open>role\<close> among them), the unique index on \<open>email\<close>, the defaults of every field not
  given (\<^verbatim>\<open>role: default 'student'\<close>) and the hashing hook. \<open>None\<close> where it throws.
\<close>

record user_fields =
  given_name :: string
  given_email :: string
  given_password :: string
  given_role :: "string option"

definition role_of_name :: "string \<Rightarrow> role option" where
  "role_of_name s =
     (if s = ''student'' then Some Student
      else if s = ''instructor'' then Some Instructor
      else if s = ''admin'' then Some Admin
      else None)"

definition create_user :: "auth_lib \<Rightarrow> db \<Rightarrow> user_fields \<Rightarrow> (user \<times> db) option" where
  "create_user lib d given =
     (let nm = trim (given_name given);
          em = toLowerCase lib (trim (given_email given));
          pw = given_password given;
          rl = (case given_role given of None \<Rightarrow> Some Student | Some s \<Rightarrow> role_of_name s)
      in if nm = [] \<or> 100 < length nm \<or> em = [] \<or> \<not> email_pattern lib em
            \<or> length pw < 6 \<or> list_ex (\<lambda>u. email u = em) (users d)
         then None
         else
           (case rl of
              None \<Rightarrow> None
            | Some r \<Rightarrow>
                (let u = \<lparr>user_id = new_ObjectId lib d, name = nm, email = em, role = r,
                          enrolledCourses = [], completedCourses = [], isActive = True,
                          lastLogin = None, password = bcrypt_hash lib pw\<rparr>
                 in Some (u, d\<lparr>users := users d @ [u]\<rparr>))))"

definition signup :: "auth_lib \<Rightarrow> nat \<Rightarrow> db \<Rightarrow> signup_body \<Rightarrow> signup_reply response \<times> db" where
  "signup lib now d body =
     (if signup_errors lib body \<noteq> []
      then (Failure 400 (join_with '', '' (signup_errors lib body)), d)
      else
        (let nm = trim (field_value (body_name body));
             em = normalizeEmail lib (field_value (body_email body));
             pw = field_value (body_password body)
         in if list_ex (\<lambda>u. email u = em) (users d)
            then (Failure 400 ''User already exists with this email'', d)
            else
              (case create_user lib d \<lparr>given_name = nm, given_email = em,
                                         given_password = pw, given_role = None\<rparr> of
                 None \<Rightarrow> (Failure 500 ''Server error during registration'', d)
               | Some (u, d1) \<Rightarrow>
                   (let token = jwt_sign lib (user_id u)
                    in (case updateLastLogin now u d1 of
                          (u', d2) \<Rightarrow>
                            (Reply 201
                               \<lparr>signup_message = ''User registered successfully'',
                                signup_token = token, signup_id = user_id u',
                                signup_name = name u', signup_email = email u',
                                signup_role = role u',
                                signup_enrolledCourses = enrolledCourses u'\<rparr>, d2))))))"

section \<open>The page size in the words of the specification\<close>

text \<open>A list request without any query parameter.\<close>

definition plain_query :: list_query where
  "plain_query = \<lparr>q_category = None, q_level = None, q_minPrice = None, q_maxPrice = None,
     q_search = None, q_page = None, q_limit = None, q_sort = None\<rparr>"

text \<open>
  The specification's wording of the page size, for comparison with \<open>get_courses\<close>:
  the limit clamped to the range from 1 to 50, and 12 when absent.
\<close>

definition spec_page_size :: "string option \<Rightarrow> int" where
  "spec_page_size limit = (case limit of None \<Rightarrow> 12 | Some s \<Rightarrow> max 1 (min 50 (to_number s)))"

section \<open>Sample data\<close>


definition js_course :: course where
  "js_course = new_course ''c1'' ''Complete JavaScript Mastery'' ''Master JavaScript''
     ''John Smith'' (Some ''i1'') ''Programming'' ''Intermediate'' 10"


definition student_a :: user where
  "student_a = \<lparr>user_id = ''u1'', name = ''Demo User'', email = ''demo@eduhub.com'',
     role = Student, enrolledCourses = [], completedCourses = [], isActive = True,
     lastLogin = None, password = ''$2a$12$demo''\<rparr>"

definition campus_db :: db where
  "campus_db = \<lparr>courses = [js_course], users = [student_a]\<rparr>"

definition enrolled_db :: db where
  "enrolled_db = snd (enroll campus_db ''c1'' (user_view.truncate student_a))"

definition stale_db :: db where
  "stale_db = \<lparr>courses = [js_course], users = [student_a\<lparr>enrolledCourses := [''c1'']\<rparr>]\<rparr>"

definition completed_db :: db where
  "completed_db = snd (complete enrolled_db ''c1'' (user_view.truncate student_a))"

definition left_db :: db where
  "left_db = snd (unenroll completed_db ''c1'' (user_view.truncate student_a))"

definition demo_verify :: "string \<Rightarrow> objectId option" where
  "demo_verify t =
     (if t = ''tok-u1'' then Some ''u1''
      else if t = ''tok-a1'' then Some ''a1''
      else if t = ''tok-i2'' then Some ''i2''
      else if t = ''tok-gone'' then Some ''u9''
      else None)"

definition admin_c :: user where
  "admin_c = \<lparr>user_id = ''a1'', name = ''Admin User'', email = ''admin@eduhub.com'',
     role = Admin, enrolledCourses = [], completedCourses = [], isActive = True,
     lastLogin = None, password = ''$2a$12$admin''\<rparr>"

definition instructor_b :: user where
  "instructor_b = \<lparr>user_id = ''i2'', name = ''Sarah Johnson'', email = ''sarah@eduhub.com'',
     role = Instructor, enrolledCourses = [], completedCourses = [], isActive = True,
     lastLogin = None, password = ''$2a$12$sarah''\<rparr>"

definition orphan_db :: db where
  "orphan_db = \<lparr>courses = [js_course\<lparr>instructorId := None\<rparr>], users = [admin_c, instructor_b]\<rparr>"

definition staffed_db :: db where
  "staffed_db = \<lparr>courses = [js_course], users = [admin_c, instructor_b, student_a]\<rparr>"

definition deactivated_db :: db where
  "deactivated_db = \<lparr>courses = [js_course], users = [student_a\<lparr>isActive := False\<rparr>]\<rparr>"

definition demo_auth :: auth_lib where
  "demo_auth = \<lparr>isEmail = (\<lambda>s. CHR ''@'' \<in> set s), normalizeEmail = (\<lambda>s. s),
     toLowerCase = (\<lambda>s. s), email_pattern = (\<lambda>s. CHR ''@'' \<in> set s),
     bcrypt_hash = (\<lambda>p. ''$2a$12$'' @ p), new_ObjectId = (\<lambda>d. ''u2''),
     jwt_sign = (\<lambda>i. ''tok-'' @ i)\<rparr>"

definition eager_body :: signup_body where
  "eager_body = \<lparr>body_name = Some ''Mallory'', body_email = Some ''mallory@example.com'',
     body_password = Some ''secret1'', body_role = Some ''admin''\<rparr>"

definition registered_db :: db where
  "registered_db = \<lparr>courses = [js_course],
       users = [student_a,
         \<lparr>user_id = ''u2'', name = ''Mallory'', email = ''mallory@example.com'', role = Student,
          enrolledCourses = [], completedCourses = [], isActive = True, lastLogin = Some 100,
          password = ''$2a$12$secret1''\<rparr>]\<rparr>"

definition catalog_course :: "objectId \<Rightarrow> nat \<Rightarrow> string \<Rightarrow> bool \<Rightarrow> bool \<Rightarrow> course" where
  "catalog_course cid created cat published featured =
     (new_course cid ''Course'' ''About the course'' ''John Smith'' (Some ''i1'') cat
        ''Beginner'' created)\<lparr>isPublished := published, isFeatured := featured\<rparr>"

definition catalog_db :: db where
  "catalog_db = \<lparr>courses =
     [catalog_course ''k01'' 1 ''Programming'' True True,
      catalog_course ''k02'' 2 ''Design'' True False,
      catalog_course ''k03'' 3 ''Programming'' True False,
      catalog_course ''k04'' 4 ''Music'' True False,
      catalog_course ''k05'' 5 ''Programming'' False True,
      catalog_course ''k06'' 6 ''Design'' True False,
      catalog_course ''k07'' 7 ''Business'' True False,
      catalog_course ''k08'' 8 ''Programming'' True True,
      catalog_course ''k09'' 9 ''Health'' True False,
      catalog_course ''k10'' 10 ''Science'' True False,
      catalog_course ''k11'' 11 ''Other'' True False,
      catalog_course ''k12'' 12 ''Language'' True False,
      catalog_course ''k13'' 13 ''Programming'' True False],
     users = []\<rparr>"

definition demo_lib :: catalog_lib where
  "demo_lib = \<lparr>isNumeric = (\<lambda>s. s \<noteq> [] \<and> list_all is_digit s),
     parseFloat = (\<lambda>s. of_nat (digits_value s)),
     regex_i = (\<lambda>p s. p = s),
     sort_by = (\<lambda>spec. sort_docs newest_first)\<rparr>"

definition rated_course :: "objectId \<Rightarrow> nat \<Rightarrow> rat \<Rightarrow> nat \<Rightarrow> course" where
  "rated_course cid created avg n =
     (catalog_course cid created ''Programming'' True False)\<lparr>rating := \<lparr>average = avg, count = n\<rparr>\<rparr>"

definition tie_db :: db where
  "tie_db = \<lparr>courses = [rated_course ''new'' 2 4 2, rated_course ''old'' 1 4 10], users = []\<rparr>"

definition owner_i1 :: user_view where
  "owner_i1 = \<lparr>user_id = ''i1'', name = ''John Smith'', email = ''john.smith@eduhub.com'',
     role = Instructor, enrolledCourses = [], completedCourses = [], isActive = True,
     lastLogin = None\<rparr>"

section \<open>The store\<close>

lemma find_replace:
  "find (\<lambda>x. k x = i) (map (\<lambda>x. if k x = k c then c else x) xs) =
     (if i = k c then (if \<exists>x\<in>set xs. k x = i then Some c else None)
      else find (\<lambda>x. k x = i) xs)"
  by (induction xs) auto

lemma find_key: "find (\<lambda>x. k x = i) xs = Some y \<Longrightarrow> k y = i \<and> y \<in> set xs"
  by (induction xs) (auto split: if_splits)

lemma findCourseById_id: "findCourseById d cid = Some c \<Longrightarrow> course_id c = cid"
  unfolding findCourseById_def by (drule find_key) simp

lemma findUserById_id: "findUserById d uid = Some u \<Longrightarrow> user_id u = uid"
  unfolding findUserById_def by (drule find_key) simp

lemma findCourseById_saveCourse_same:
  "findCourseById d cid = Some c0 \<Longrightarrow> course_id c = cid \<Longrightarrow>
   findCourseById (saveCourse c d) cid = Some c"
  unfolding findCourseById_def saveCourse_def
  using find_key [of course_id cid "courses d" c0] find_replace [of course_id cid c "courses d"]
  by auto

lemma findUserById_saveUser_same:
  "findUserById d uid = Some u0 \<Longrightarrow> user_id u = uid \<Longrightarrow>
   findUserById (saveUser u d) uid = Some u"
  unfolding findUserById_def saveUser_def
  using find_key [of user_id uid "users d" u0] find_replace [of user_id uid u "users d"]
  by auto

lemma findUserById_saveCourse [simp]: "findUserById (saveCourse c d) uid = findUserById d uid"
  by (simp add: findUserById_def saveCourse_def)

lemma findCourseById_saveUser [simp]: "findCourseById (saveUser u d) cid = findCourseById d cid"
  by (simp add: findCourseById_def saveUser_def)

lemma find_None_key: "find (\<lambda>x. k x = i) xs = None \<longleftrightarrow> (\<forall>x\<in>set xs. k x \<noteq> i)"
  by (induction xs) auto

lemma findUserById_saveUser:
  "findUserById (saveUser u d) uid =
     (if uid = user_id u \<and> findUserById d uid \<noteq> None then Some u else findUserById d uid)"
  unfolding findUserById_def saveUser_def
  using find_replace [of user_id uid u "users d"] find_None_key [of user_id uid "users d"]
  by auto

section \<open>Properties of the rating aggregate\<close>











lemma addReview_saves:
  "snd (addReview u r cmt c d) = saveCourse (fst (addReview u r cmt c d)) d"
  "course_id (fst (addReview u r cmt c d)) = course_id c"
  by (simp_all add: addReview_def Let_def)

lemma addReview_stored:
  assumes "findCourseById d (course_id c) = Some c0"
  shows "findCourseById (snd (addReview u r cmt c d)) (course_id c) = Some (fst (addReview u r cmt c d))"
  unfolding addReview_saves(1)
  by (rule findCourseById_saveCourse_same [OF assms]) (rule addReview_saves(2))




section \<open>Enrollment, withdrawal and completion\<close>

lemma enroll_success:
  assumes "enroll d cid A = (Reply st rep, d')"
  shows "\<exists>c u. findCourseById d cid = Some c \<and> isPublished c
           \<and> user_id A \<notin> set (enrolledStudents c)
           \<and> findUserById d (user_id A) = Some u
           \<and> findCourseById d' cid = Some (c\<lparr>enrolledStudents := enrolledStudents c @ [user_id A]\<rparr>)
           \<and> findUserById d' (user_id A) =
               Some (if cid \<in> set (enrolledCourses u) then u
                     else u\<lparr>enrolledCourses := enrolledCourses u @ [cid]\<rparr>)"
proof -
  from assms obtain c where c: "findCourseById d cid = Some c"
    by (auto simp: enroll_def split: option.splits)
  then have cid: "course_id c = cid" by (rule findCourseById_id)
  from assms c have pub: "isPublished c" and ne: "user_id A \<notin> set (enrolledStudents c)"
    by (auto simp: enroll_def split: if_splits)
  let ?c' = "c\<lparr>enrolledStudents := enrolledStudents c @ [user_id A]\<rparr>"
  let ?d1 = "saveCourse ?c' d"
  have es: "enrollStudent (user_id A) c d = (?c', ?d1)"
    using ne by (simp add: enrollStudent_def Let_def)
  from assms c pub ne es obtain u where u: "findUserById d (user_id A) = Some u"
    by (auto simp: enroll_def split: option.splits)
  then have uid: "user_id u = user_id A" by (rule findUserById_id)
  have c1: "findCourseById ?d1 cid = Some ?c'"
    using c cid by (simp add: findCourseById_saveCourse_same)
  show ?thesis
  proof (cases "cid \<in> set (enrolledCourses u)")
    case True
    then have "enrollInCourse (course_id ?c') u ?d1 = (u, ?d1)"
      using cid by (simp add: enrollInCourse_def)
    with assms c pub ne es u have "d' = ?d1"
      by (simp add: enroll_def)
    with c pub ne u c1 True show ?thesis by simp
  next
    case False
    let ?u' = "u\<lparr>enrolledCourses := enrolledCourses u @ [cid]\<rparr>"
    have "enrollInCourse (course_id ?c') u ?d1 = (?u', saveUser ?u' ?d1)"
      using False cid by (simp add: enrollInCourse_def Let_def)
    with assms c pub ne es u have d': "d' = saveUser ?u' ?d1"
      by (simp add: enroll_def)
    have "findUserById d' (user_id A) = Some ?u'"
      unfolding d' using u uid by (simp add: findUserById_saveUser_same)
    with c pub ne u c1 False d' show ?thesis by simp
  qed
qed

lemma unenroll_enrolled:
  assumes c: "findCourseById d cid = Some c"
    and m: "user_id A \<in> set (enrolledStudents c)"
    and u: "findUserById d (user_id A) = Some u"
  shows "unenroll d cid A =
     (Reply 200 ''Successfully unenrolled from course'',
      saveUser (u\<lparr>enrolledCourses := filter (\<lambda>i. i \<noteq> cid) (enrolledCourses u)\<rparr>)
        (saveCourse (c\<lparr>enrolledStudents := filter (\<lambda>i. i \<noteq> user_id A) (enrolledStudents c)\<rparr>) d))"
proof -
  have cid: "course_id c = cid" using c by (rule findCourseById_id)
  show ?thesis
    using c m u cid by (simp add: unenroll_def unenrollStudent_def unenrollFromCourse_def Let_def)
qed

lemma unenroll_not_enrolled:
  "findCourseById d cid = Some c \<Longrightarrow> user_id A \<notin> set (enrolledStudents c)
     \<Longrightarrow> unenroll d cid A = (Failure 400 ''Not enrolled in this course'', d)"
  by (simp add: unenroll_def)

lemma enroll_then_unenroll:
  assumes e: "enroll d cid A = (Reply st rep, d1)"
    and c: "findCourseById d cid = Some c"
    and u: "findUserById d (user_id A) = Some u"
  shows "\<exists>d2. unenroll d1 cid A = (Reply 200 ''Successfully unenrolled from course'', d2)
           \<and> findCourseById d2 cid = Some c
           \<and> findUserById d2 (user_id A) =
                Some (u\<lparr>enrolledCourses := filter (\<lambda>i. i \<noteq> cid) (enrolledCourses u)\<rparr>)"
proof -
  let ?uid = "user_id A"
  let ?c1 = "c\<lparr>enrolledStudents := enrolledStudents c @ [?uid]\<rparr>"
  let ?u1 = "if cid \<in> set (enrolledCourses u) then u
             else u\<lparr>enrolledCourses := enrolledCourses u @ [cid]\<rparr>"
  from enroll_success [OF e] c u
  have ne: "?uid \<notin> set (enrolledStudents c)"
    and c1: "findCourseById d1 cid = Some ?c1"
    and u1: "findUserById d1 ?uid = Some ?u1"
    by auto
  have cid: "course_id c = cid" using c by (rule findCourseById_id)
  have uid: "user_id u = ?uid" using u by (rule findUserById_id)
  have restored: "filter (\<lambda>i. i \<noteq> ?uid) (enrolledStudents ?c1) = enrolledStudents c"
    using ne by (auto simp: filter_id_conv)
  have ec: "filter (\<lambda>i. i \<noteq> cid) (enrolledCourses ?u1) = filter (\<lambda>i. i \<noteq> cid) (enrolledCourses u)"
    by simp
  let ?c2 = "?c1\<lparr>enrolledStudents := filter (\<lambda>i. i \<noteq> ?uid) (enrolledStudents ?c1)\<rparr>"
  let ?u2 = "?u1\<lparr>enrolledCourses := filter (\<lambda>i. i \<noteq> cid) (enrolledCourses ?u1)\<rparr>"
  let ?d2 = "saveUser ?u2 (saveCourse ?c2 d1)"
  have un: "unenroll d1 cid A = (Reply 200 ''Successfully unenrolled from course'', ?d2)"
    by (rule unenroll_enrolled [OF c1 _ u1]) simp
  have c2: "?c2 = c" using restored by simp
  have u2: "?u2 = u\<lparr>enrolledCourses := filter (\<lambda>i. i \<noteq> cid) (enrolledCourses u)\<rparr>"
    by simp
  have fc: "findCourseById ?d2 cid = Some c"
    using findCourseById_saveCourse_same [OF c1, of ?c2] cid c2 by simp
  have fu: "findUserById ?d2 ?uid = Some ?u2"
    using findUserById_saveUser_same [of "saveCourse ?c2 d1" ?uid ?u1 ?u2] u1 uid by simp
  from un fc fu u2 show ?thesis by simp
qed

lemmas sample_defs = student_a_def campus_db_def js_course_def new_course_def
  user_view.truncate_def findCourseById_def findUserById_def saveCourse_def saveUser_def

lemma enroll_campus:
  "enroll campus_db ''c1'' (user_view.truncate student_a) =
     (Reply 200 \<lparr>enroll_message = ''Successfully enrolled in course'', enroll_id = ''c1'',
        enroll_title = ''Complete JavaScript Mastery'', enroll_instructor = ''John Smith''\<rparr>,
      enrolled_db)"
  by (simp add: enrolled_db_def enroll_def enrollStudent_def enrollInCourse_def Let_def sample_defs)

lemma enrolled_db_eq:
  "enrolled_db = \<lparr>courses = [js_course\<lparr>enrolledStudents := [''u1'']\<rparr>],
                  users = [student_a\<lparr>enrolledCourses := [''c1'']\<rparr>]\<rparr>"
  by (simp add: enrolled_db_def enroll_def enrollStudent_def enrollInCourse_def Let_def sample_defs)

text \<open>
  Claim C2. When the enroll route answers with success, the caller's id is in the
  course's \<open>enrolledStudents\<close> and the course's id is in the caller's
  \<open>enrolledCourses\<close>, as stored; the same request repeated on the resulting database
  answers 400 ``Already enrolled in this course'' and leaves the database as it is.
\<close>

theorem enroll_links_both_sides:
  "enroll d cid A = (Reply st rep, d') \<Longrightarrow>
     st = 200
     \<and> (\<exists>c' u'. findCourseById d' cid = Some c' \<and> user_id A \<in> set (enrolledStudents c')
           \<and> findUserById d' (user_id A) = Some u' \<and> cid \<in> set (enrolledCourses u'))
     \<and> enroll d' cid A = (Failure 400 ''Already enrolled in this course'', d')"
proof -
  assume e: "enroll d cid A = (Reply st rep, d')"
  from enroll_success [OF e] obtain c u where
    pub: "isPublished c"
    and c': "findCourseById d' cid = Some (c\<lparr>enrolledStudents := enrolledStudents c @ [user_id A]\<rparr>)"
    and u': "findUserById d' (user_id A) =
               Some (if cid \<in> set (enrolledCourses u) then u
                     else u\<lparr>enrolledCourses := enrolledCourses u @ [cid]\<rparr>)"
    by blast
  have st: "st = 200"
    using e by (auto simp: enroll_def split: option.splits if_splits prod.splits)
  have again: "enroll d' cid A = (Failure 400 ''Already enrolled in this course'', d')"
    using c' pub by (simp add: enroll_def)
  from st c' u' again show ?thesis by auto
qed

theorem enroll_links_both_sides_witness:
  "enroll campus_db ''c1'' (user_view.truncate student_a) =
     (Reply 200 \<lparr>enroll_message = ''Successfully enrolled in course'', enroll_id = ''c1'',
        enroll_title = ''Complete JavaScript Mastery'', enroll_instructor = ''John Smith''\<rparr>,
      enrolled_db)
   \<and> map enrolledStudents (courses enrolled_db) = [[''u1'']]
   \<and> map enrolledCourses (users enrolled_db) = [[''c1'']]
   \<and> enroll enrolled_db ''c1'' (user_view.truncate student_a) =
       (Failure 400 ''Already enrolled in this course'', enrolled_db)"
  using enroll_links_both_sides [OF enroll_campus] enroll_campus
  by (simp add: enrolled_db_eq)

text \<open>
  A one-sided state arises from the routes alone: after the student of \<open>campus_db\<close> has
  enrolled, the owner of the course updates it with a body that resets
  \<open>enrolledStudents\<close>. The result is \<open>stale_db\<close>: the account still lists the course.
\<close>

lemma one_sided_state_reachable:
  "update_course [] (\<lambda>c. Some (c\<lparr>enrolledStudents := []\<rparr>)) enrolled_db ''c1'' owner_i1 =
     (Reply 200 \<lparr>reply_message = ''Course updated successfully'', reply_course = js_course\<rparr>,
      stale_db)"
  by (simp add: update_course_def enrolled_db_eq stale_db_def owner_i1_def findCourseById_def
      js_course_def new_course_def)

text \<open>
  Claim C3 does not hold for every account and course. \<open>enrollInCourse\<close> pushes the
  course id only when the account does not hold it yet, while \<open>unenrollFromCourse\<close>
  removes it in every case. On a database where the account already lists the course but
  the course does not list the account, enrolling and then withdrawing answers success
  twice and leaves the account's \<open>enrolledCourses\<close> empty, not as it was.
\<close>

theorem unenroll_after_enroll_counterexample:
  "fst (enroll stale_db ''c1'' (user_view.truncate student_a)) =
       Reply 200 \<lparr>enroll_message = ''Successfully enrolled in course'', enroll_id = ''c1'',
          enroll_title = ''Complete JavaScript Mastery'', enroll_instructor = ''John Smith''\<rparr>
   \<and> fst (unenroll (snd (enroll stale_db ''c1'' (user_view.truncate student_a))) ''c1''
               (user_view.truncate student_a))
       = Reply 200 ''Successfully unenrolled from course''
   \<and> map enrolledCourses (users stale_db) = [[''c1'']]
   \<and> map enrolledCourses
         (users (snd (unenroll (snd (enroll stale_db ''c1'' (user_view.truncate student_a))) ''c1''
                        (user_view.truncate student_a))))
       = [[]]
   \<and> map enrolledCourses
         (users (snd (unenroll (snd (enroll stale_db ''c1'' (user_view.truncate student_a))) ''c1''
                        (user_view.truncate student_a))))
       \<noteq> map enrolledCourses (users stale_db)"
  by (simp add: stale_db_def enroll_def unenroll_def enrollStudent_def enrollInCourse_def
      unenrollStudent_def unenrollFromCourse_def Let_def sample_defs)

text \<open>
  Claim C3, amended. After a successful enroll, the withdrawal succeeds; it leaves the
  stored course exactly as it was before the enrollment, and leaves the account with its
  earlier \<open>enrolledCourses\<close> without the course id, which is the earlier list itself
  whenever the account did not list the course before. Withdrawing from an existing
  course whose \<open>enrolledStudents\<close> lacks the caller answers 400 ``Not enrolled in this
  course'' and changes nothing.
\<close>

theorem unenroll_after_enroll_restores:
  "(enroll d cid A = (Reply st rep, d1) \<and> findCourseById d cid = Some c
      \<and> findUserById d (user_id A) = Some u
    \<longrightarrow> (\<exists>d2. unenroll d1 cid A = (Reply 200 ''Successfully unenrolled from course'', d2)
           \<and> findCourseById d2 cid = Some c
           \<and> findUserById d2 (user_id A) =
                Some (u\<lparr>enrolledCourses := filter (\<lambda>i. i \<noteq> cid) (enrolledCourses u)\<rparr>)
           \<and> (cid \<notin> set (enrolledCourses u) \<longrightarrow> findUserById d2 (user_id A) = Some u)))
   \<and> (findCourseById e cid = Some c' \<and> user_id A \<notin> set (enrolledStudents c')
    \<longrightarrow> unenroll e cid A = (Failure 400 ''Not enrolled in this course'', e))"
proof (intro conjI impI)
  assume a: "enroll d cid A = (Reply st rep, d1) \<and> findCourseById d cid = Some c
      \<and> findUserById d (user_id A) = Some u"
  then obtain d2 where
    un: "unenroll d1 cid A = (Reply 200 ''Successfully unenrolled from course'', d2)"
    and fc: "findCourseById d2 cid = Some c"
    and fu: "findUserById d2 (user_id A) =
                Some (u\<lparr>enrolledCourses := filter (\<lambda>i. i \<noteq> cid) (enrolledCourses u)\<rparr>)"
    using enroll_then_unenroll [of d cid A st rep d1 c u] by blast
  have "cid \<notin> set (enrolledCourses u) \<longrightarrow> findUserById d2 (user_id A) = Some u"
  proof
    assume "cid \<notin> set (enrolledCourses u)"
    then have "filter (\<lambda>i. i \<noteq> cid) (enrolledCourses u) = enrolledCourses u"
      by (auto simp: filter_id_conv)
    with fu show "findUserById d2 (user_id A) = Some u" by simp
  qed
  with un fc fu
  show "\<exists>d2. unenroll d1 cid A = (Reply 200 ''Successfully unenrolled from course'', d2)
           \<and> findCourseById d2 cid = Some c
           \<and> findUserById d2 (user_id A) =
                Some (u\<lparr>enrolledCourses := filter (\<lambda>i. i \<noteq> cid) (enrolledCourses u)\<rparr>)
           \<and> (cid \<notin> set (enrolledCourses u) \<longrightarrow> findUserById d2 (user_id A) = Some u)"
    by blast
next
  assume "findCourseById e cid = Some c' \<and> user_id A \<notin> set (enrolledStudents c')"
  then show "unenroll e cid A = (Failure 400 ''Not enrolled in this course'', e)"
    by (simp add: unenroll_not_enrolled)
qed

lemma campus_lookups:
  "findCourseById campus_db ''c1'' = Some js_course"
  "findUserById campus_db ''u1'' = Some student_a"
  "user_id (user_view.truncate student_a) = ''u1''"
  "''u1'' \<notin> set (enrolledStudents js_course)"
  "''c1'' \<notin> set (enrolledCourses student_a)"
  by (simp_all add: sample_defs)

theorem unenroll_after_enroll_restores_witness:
  "enroll campus_db ''c1'' (user_view.truncate student_a) =
     (Reply 200 \<lparr>enroll_message = ''Successfully enrolled in course'', enroll_id = ''c1'',
        enroll_title = ''Complete JavaScript Mastery'', enroll_instructor = ''John Smith''\<rparr>,
      enrolled_db)
   \<and> findCourseById campus_db ''c1'' = Some js_course
   \<and> findUserById campus_db ''u1'' = Some student_a
   \<and> ''c1'' \<notin> set (enrolledCourses student_a)
   \<and> ''u1'' \<notin> set (enrolledStudents js_course)
   \<and> (\<exists>d2. unenroll enrolled_db ''c1'' (user_view.truncate student_a)
               = (Reply 200 ''Successfully unenrolled from course'', d2)
           \<and> findCourseById d2 ''c1'' = Some js_course
           \<and> findUserById d2 ''u1'' = Some student_a)
   \<and> unenroll campus_db ''c1'' (user_view.truncate student_a)
       = (Failure 400 ''Not enrolled in this course'', campus_db)"
  using unenroll_after_enroll_restores
    [of campus_db "''c1''" "user_view.truncate student_a" 200
        "\<lparr>enroll_message = ''Successfully enrolled in course'', enroll_id = ''c1'',
          enroll_title = ''Complete JavaScript Mastery'', enroll_instructor = ''John Smith''\<rparr>"
        enrolled_db js_course student_a campus_db js_course]
    enroll_campus campus_lookups
  by auto

lemma complete_not_enrolled:
  "findCourseById d cid = Some c \<Longrightarrow> user_id A \<notin> set (enrolledStudents c)
     \<Longrightarrow> complete d cid A = (Failure 400 ''Must be enrolled to complete this course'', d)"
  by (simp add: complete_def)

lemma complete_enrolled:
  "findCourseById d cid = Some c \<Longrightarrow> user_id A \<in> set (enrolledStudents c)
     \<Longrightarrow> fst (complete d cid A) \<noteq> Failure 400 ''Must be enrolled to complete this course''"
  by (simp add: complete_def completeCourse_def Let_def split: option.splits)

lemma complete_once:
  assumes e: "complete d cid A = (Reply st m, d')"
  shows "st = 200
     \<and> (\<exists>u'. findUserById d' (user_id A) = Some u' \<and> cid \<in> set (completedCourses u'))
     \<and> complete d' cid A = (Failure 400 ''Course already completed'', d')"
proof -
  from e obtain c where c: "findCourseById d cid = Some c"
    by (auto simp: complete_def split: option.splits)
  then have cid: "course_id c = cid" by (rule findCourseById_id)
  from e c have m: "user_id A \<in> set (enrolledStudents c)"
    by (auto simp: complete_def split: if_splits)
  from e c m obtain u where u: "findUserById d (user_id A) = Some u"
    by (auto simp: complete_def split: option.splits)
  then have uid: "user_id u = user_id A" by (rule findUserById_id)
  from e c m u cid have nc: "cid \<notin> set (completedCourses u)"
    by (auto simp: complete_def split: if_splits)
  let ?u' = "u\<lparr>completedCourses := completedCourses u @ [cid]\<rparr>"
  from e c m u cid nc have st: "st = 200" and d': "d' = saveUser ?u' d"
    by (simp_all add: complete_def completeCourse_def Let_def)
  have fu: "findUserById d' (user_id A) = Some ?u'"
    unfolding d' using u uid by (simp add: findUserById_saveUser)
  have fc: "findCourseById d' cid = Some c"
    unfolding d' using c by simp
  have "complete d' cid A = (Failure 400 ''Course already completed'', d')"
    using fc fu m cid by (simp add: complete_def)
  with st fu show ?thesis by simp
qed

lemma unenroll_keeps_completed:
  assumes "unenroll d cid B = (r, d2)"
  shows "map_option completedCourses (findUserById d2 uid)
           = map_option completedCourses (findUserById d uid)"
proof (cases "findCourseById d cid")
  case None
  with assms show ?thesis by (simp add: unenroll_def)
next
  case (Some c)
  show ?thesis
  proof (cases "user_id B \<in> set (enrolledStudents c)")
    case False
    with Some assms show ?thesis by (simp add: unenroll_def)
  next
    case True
    show ?thesis
    proof (cases "findUserById d (user_id B)")
      case None
      with Some True assms show ?thesis
        by (auto simp: unenroll_def unenrollStudent_def Let_def)
    next
      case u: (Some u)
      have uid: "user_id u = user_id B" using u by (rule findUserById_id)
      from unenroll_enrolled [OF Some True u] assms
      have "d2 = saveUser (u\<lparr>enrolledCourses := filter (\<lambda>i. i \<noteq> cid) (enrolledCourses u)\<rparr>)
        (saveCourse (c\<lparr>enrolledStudents := filter (\<lambda>i. i \<noteq> user_id B) (enrolledStudents c)\<rparr>) d)"
        by simp
      then show ?thesis using u uid by (auto simp: findUserById_saveUser)
    qed
  qed
qed

lemma complete_succeeds:
  assumes c: "findCourseById d cid = Some c"
    and m: "user_id A \<in> set (enrolledStudents c)"
    and u: "findUserById d (user_id A) = Some u"
    and n: "cid \<notin> set (completedCourses u)"
  shows "complete d cid A =
     (Reply 200 ''Course marked as completed'',
      saveUser (u\<lparr>completedCourses := completedCourses u @ [cid]\<rparr>) d)"
proof -
  have cid: "course_id c = cid" using c by (rule findCourseById_id)
  have "completeCourse cid u d =
      (u\<lparr>completedCourses := completedCourses u @ [cid]\<rparr>,
       saveUser (u\<lparr>completedCourses := completedCourses u @ [cid]\<rparr>) d)"
    using n by (simp add: completeCourse_def Let_def)
  with c m u n cid show ?thesis by (simp add: complete_def)
qed

lemma complete_already_completed:
  assumes c: "findCourseById d cid = Some c"
    and m: "user_id A \<in> set (enrolledStudents c)"
    and u: "findUserById d (user_id A) = Some u"
    and n: "cid \<in> set (completedCourses u)"
  shows "complete d cid A = (Failure 400 ''Course already completed'', d)"
proof -
  have cid: "course_id c = cid" using c by (rule findCourseById_id)
  with c m u n show ?thesis by (simp add: complete_def)
qed

text \<open>
  Claim C4. On an existing course, completion answers 400 ``Must be enrolled to complete
  this course'' when the caller is not in \<open>enrolledStudents\<close>, and never gives that
  answer when the caller is. The completion of an enrolled caller whose account does not
  hold the course in \<open>completedCourses\<close> succeeds: it answers 200 ``Course marked as
  completed'' and appends the course id to that list, changing nothing else (the account
  is the one \<open>protect\<close> has just loaded, so the handler finds it). A completion that
  succeeds stores the course id in the caller's \<open>completedCourses\<close>, and the same
  request repeated answers 400 ``Course already completed'' without changing the
  database, as does every completion by an enrolled caller whose account already holds
  the course. A withdrawal, whatever it answers, leaves the \<open>completedCourses\<close> of every
  account as they were.
\<close>

theorem complete_requires_enrollment_once:
  "(findCourseById d cid = Some c \<and> user_id A \<notin> set (enrolledStudents c)
      \<longrightarrow> complete d cid A = (Failure 400 ''Must be enrolled to complete this course'', d))
   \<and> (findCourseById d1 cid = Some c1 \<and> user_id A \<in> set (enrolledStudents c1)
      \<longrightarrow> fst (complete d1 cid A) \<noteq> Failure 400 ''Must be enrolled to complete this course'')
   \<and> (findCourseById d1 cid = Some c1 \<and> user_id A \<in> set (enrolledStudents c1)
        \<and> findUserById d1 (user_id A) = Some u1 \<and> cid \<notin> set (completedCourses u1)
      \<longrightarrow> complete d1 cid A =
            (Reply 200 ''Course marked as completed'',
             saveUser (u1\<lparr>completedCourses := completedCourses u1 @ [cid]\<rparr>) d1))
   \<and> (findCourseById d4 cid = Some c4 \<and> user_id A \<in> set (enrolledStudents c4)
        \<and> findUserById d4 (user_id A) = Some u4 \<and> cid \<in> set (completedCourses u4)
      \<longrightarrow> complete d4 cid A = (Failure 400 ''Course already completed'', d4))
   \<and> (complete d1 cid A = (Reply st m, d2)
      \<longrightarrow> st = 200
          \<and> (\<exists>u'. findUserById d2 (user_id A) = Some u' \<and> cid \<in> set (completedCourses u'))
          \<and> complete d2 cid A = (Failure 400 ''Course already completed'', d2))
   \<and> (unenroll d2 cid' B = (r, d3)
      \<longrightarrow> map_option completedCourses (findUserById d3 uid)
            = map_option completedCourses (findUserById d2 uid))"
proof (intro conjI impI)
  assume "findCourseById d cid = Some c \<and> user_id A \<notin> set (enrolledStudents c)"
  then show "complete d cid A = (Failure 400 ''Must be enrolled to complete this course'', d)"
    using complete_not_enrolled [of d cid c A] by blast
next
  assume "findCourseById d1 cid = Some c1 \<and> user_id A \<in> set (enrolledStudents c1)"
  then show "fst (complete d1 cid A) \<noteq> Failure 400 ''Must be enrolled to complete this course''"
    using complete_enrolled [of d1 cid c1 A] by blast
next
  assume "findCourseById d1 cid = Some c1 \<and> user_id A \<in> set (enrolledStudents c1)
        \<and> findUserById d1 (user_id A) = Some u1 \<and> cid \<notin> set (completedCourses u1)"
  then show "complete d1 cid A =
            (Reply 200 ''Course marked as completed'',
             saveUser (u1\<lparr>completedCourses := completedCourses u1 @ [cid]\<rparr>) d1)"
    using complete_succeeds [of d1 cid c1 A u1] by blast
next
  assume "findCourseById d4 cid = Some c4 \<and> user_id A \<in> set (enrolledStudents c4)
        \<and> findUserById d4 (user_id A) = Some u4 \<and> cid \<in> set (completedCourses u4)"
  then show "complete d4 cid A = (Failure 400 ''Course already completed'', d4)"
    using complete_already_completed [of d4 cid c4 A u4] by blast
next
  assume e: "complete d1 cid A = (Reply st m, d2)"
  from complete_once [OF e] show "st = 200"
    and "\<exists>u'. findUserById d2 (user_id A) = Some u' \<and> cid \<in> set (completedCourses u')"
    and "complete d2 cid A = (Failure 400 ''Course already completed'', d2)"
    by blast+
next
  assume "unenroll d2 cid' B = (r, d3)"
  then show "map_option completedCourses (findUserById d3 uid)
            = map_option completedCourses (findUserById d2 uid)"
    by (rule unenroll_keeps_completed)
qed

lemma completed_db_eq:
  "completed_db = \<lparr>courses = [js_course\<lparr>enrolledStudents := [''u1'']\<rparr>],
      users = [student_a\<lparr>enrolledCourses := [''c1''], completedCourses := [''c1'']\<rparr>]\<rparr>"
  by (simp add: completed_db_def enrolled_db_eq complete_def completeCourse_def Let_def sample_defs)

lemma complete_enrolled_db:
  "complete enrolled_db ''c1'' (user_view.truncate student_a)
     = (Reply 200 ''Course marked as completed'', completed_db)"
  by (simp add: completed_db_def enrolled_db_eq complete_def completeCourse_def Let_def sample_defs)

lemma unenroll_completed_db:
  "unenroll completed_db ''c1'' (user_view.truncate student_a)
     = (Reply 200 ''Successfully unenrolled from course'', left_db)"
  by (simp add: left_db_def completed_db_eq unenroll_def unenrollStudent_def
      unenrollFromCourse_def Let_def sample_defs)

lemma enrolled_lookups:
  "findCourseById enrolled_db ''c1'' = Some (js_course\<lparr>enrolledStudents := [''u1'']\<rparr>)"
  "''u1'' \<in> set (enrolledStudents (js_course\<lparr>enrolledStudents := [''u1'']\<rparr>))"
  "findUserById enrolled_db ''u1'' = Some (student_a\<lparr>enrolledCourses := [''c1'']\<rparr>)"
  "''c1'' \<notin> set (completedCourses (student_a\<lparr>enrolledCourses := [''c1'']\<rparr>))"
  "map_option completedCourses (findUserById completed_db ''u1'') = Some [''c1'']"
  by (simp_all add: enrolled_db_eq completed_db_eq sample_defs)

lemma completed_lookups:
  "findCourseById completed_db ''c1'' = Some (js_course\<lparr>enrolledStudents := [''u1'']\<rparr>)"
  "findUserById completed_db ''u1'' =
     Some (student_a\<lparr>enrolledCourses := [''c1''], completedCourses := [''c1'']\<rparr>)"
  "''c1'' \<in> set (completedCourses
     (student_a\<lparr>enrolledCourses := [''c1''], completedCourses := [''c1'']\<rparr>))"
  "saveUser ((student_a\<lparr>enrolledCourses := [''c1'']\<rparr>)
      \<lparr>completedCourses := completedCourses (student_a\<lparr>enrolledCourses := [''c1'']\<rparr>) @ [''c1'']\<rparr>)
     enrolled_db = completed_db"
  by (simp_all add: enrolled_db_eq completed_db_eq sample_defs)

theorem complete_requires_enrollment_once_witness:
  "findCourseById campus_db ''c1'' = Some js_course
   \<and> ''u1'' \<notin> set (enrolledStudents js_course)
   \<and> complete campus_db ''c1'' (user_view.truncate student_a)
       = (Failure 400 ''Must be enrolled to complete this course'', campus_db)
   \<and> findCourseById enrolled_db ''c1'' = Some (js_course\<lparr>enrolledStudents := [''u1'']\<rparr>)
   \<and> ''u1'' \<in> set (enrolledStudents (js_course\<lparr>enrolledStudents := [''u1'']\<rparr>))
   \<and> findUserById enrolled_db ''u1'' = Some (student_a\<lparr>enrolledCourses := [''c1'']\<rparr>)
   \<and> ''c1'' \<notin> set (completedCourses (student_a\<lparr>enrolledCourses := [''c1'']\<rparr>))
   \<and> complete enrolled_db ''c1'' (user_view.truncate student_a)
       = (Reply 200 ''Course marked as completed'', completed_db)
   \<and> findCourseById completed_db ''c1'' = Some (js_course\<lparr>enrolledStudents := [''u1'']\<rparr>)
   \<and> findUserById completed_db ''u1'' =
       Some (student_a\<lparr>enrolledCourses := [''c1''], completedCourses := [''c1'']\<rparr>)
   \<and> complete completed_db ''c1'' (user_view.truncate student_a)
       = (Failure 400 ''Course already completed'', completed_db)
   \<and> unenroll completed_db ''c1'' (user_view.truncate student_a)
       = (Reply 200 ''Successfully unenrolled from course'', left_db)
   \<and> map_option completedCourses (findUserById left_db ''u1'') = Some [''c1'']"
  using complete_requires_enrollment_once
    [where d = campus_db and cid = "''c1''" and c = js_course
       and A = "user_view.truncate student_a"
       and ?d1.0 = enrolled_db and ?c1.0 = "js_course\<lparr>enrolledStudents := [''u1'']\<rparr>"
       and ?u1.0 = "student_a\<lparr>enrolledCourses := [''c1'']\<rparr>"
       and ?d4.0 = completed_db and ?c4.0 = "js_course\<lparr>enrolledStudents := [''u1'']\<rparr>"
       and ?u4.0 = "student_a\<lparr>enrolledCourses := [''c1''], completedCourses := [''c1'']\<rparr>"
       and st = 200 and m = "''Course marked as completed''" and ?d2.0 = completed_db
       and cid' = "''c1''" and B = "user_view.truncate student_a"
       and r = "Reply 200 ''Successfully unenrolled from course''" and ?d3.0 = left_db
       and uid = "''u1''"]
    campus_lookups enrolled_lookups completed_lookups unenroll_completed_db
  by simp

section \<open>Access control and ownership\<close>

lemma bearer_tokens:
  "bearer_token ''Bearer tok-u1'' = Some ''tok-u1''"
  "bearer_token ''Bearer tok-a1'' = Some ''tok-a1''"
  "bearer_token ''Bearer tok-i2'' = Some ''tok-i2''"
  "bearer_token ''Bearer tok-gone'' = Some ''tok-gone''"
  "bearer_token ''Bearer forged'' = Some ''forged''"
  "bearer_token ''Bearer'' = None"
  by (simp_all add: bearer_token_def)

lemma optionalAuth_never_rejects: "\<exists>u. optionalAuth v d h = Next u"
  by (simp add: optionalAuth_def split: option.splits)

lemma optionalAuth_of_protect:
  "protect v d h = Next u \<Longrightarrow> optionalAuth v d h = Next (Some u)"
  "protect v d h = Reject 401 ''Not authorized, no token'' \<Longrightarrow> optionalAuth v d h = Next None"
  "protect v d h = Reject 401 ''Not authorized, token failed'' \<Longrightarrow> optionalAuth v d h = Next None"
  "protect v d h = Reject 401 ''User not found'' \<Longrightarrow> optionalAuth v d h = Next None"
  by (auto simp: protect_def optionalAuth_def split: option.splits if_splits)

lemma optionalAuth_deactivated:
  "protect v d h = Reject 401 ''Account is deactivated''
     \<Longrightarrow> \<exists>u. optionalAuth v d h = Next (Some u) \<and> \<not> isActive u"
  by (auto simp: protect_def optionalAuth_def user_view.truncate_def split: option.splits if_splits)

text \<open>
  Claim C6. \<open>optionalAuth\<close> never rejects, and it attaches no account where \<open>protect\<close>
  rejects for a missing header, a token that fails verification or an account that no
  longer exists. It has no test of \<open>isActive\<close>, though: with a valid token of a
  deactivated account \<open>protect\<close> answers 401 ``Account is deactivated'', while
  \<open>optionalAuth\<close> attaches the deactivated account instead of the anonymous caller.
\<close>

theorem optionalAuth_admits_deactivated_account:
  "protect demo_verify deactivated_db (Some ''Bearer tok-u1'') = Reject 401 ''Account is deactivated''
   \<and> optionalAuth demo_verify deactivated_db (Some ''Bearer tok-u1'')
       = Next (Some (user_view.truncate (student_a\<lparr>isActive := False\<rparr>)))
   \<and> optionalAuth demo_verify deactivated_db (Some ''Bearer tok-u1'') \<noteq> Next None"
  by (simp add: protect_def optionalAuth_def verify_header_def startsWith_def bearer_tokens
      demo_verify_def deactivated_db_def findUserById_def student_a_def user_view.truncate_def)

lemma ownerless_course_fails:
  assumes "findCourseById d cid = Some c" and "instructorId c = None"
  shows "update_course [] upd d cid A = (Failure 500 ''Server error while updating course'', d)"
    and "delete_course d cid A = (Failure 500 ''Server error while deleting course'', d)"
    and "get_stats d cid A = (Failure 500 ''Server error while fetching course statistics'', d)"
  using assms by (simp_all add: update_course_def delete_course_def get_stats_def)

lemma non_owner_instructor_forbidden:
  assumes "findCourseById d cid = Some c" and "instructorId c = Some owner"
    and "owner \<noteq> user_id A" and "role A = Instructor"
  shows "update_course [] upd d cid A = (Failure 403 ''Not authorized to update this course'', d)"
    and "delete_course d cid A = (Failure 403 ''Not authorized to delete this course'', d)"
    and "get_stats d cid A = (Failure 403 ''Not authorized to view course statistics'', d)"
  using assms by (simp_all add: update_course_def delete_course_def get_stats_def)

lemma admin_passes_owned_course:
  assumes "findCourseById d cid = Some c" and "instructorId c = Some owner" and "role A = Admin"
  shows "upd c = Some c' \<Longrightarrow>
           \<exists>d'. update_course [] upd d cid A =
             (Reply 200 \<lparr>reply_message = ''Course updated successfully'', reply_course = c'\<rparr>, d')"
    and "\<exists>d'. delete_course d cid A = (Reply 200 ''Course deleted successfully'', d')"
    and "\<exists>st. get_stats d cid A = (Reply 200 st, d)"
  using assms by (simp_all add: update_course_def delete_course_def get_stats_def Let_def)

lemma owner_guard_staff:
  "owner_guard demo_verify orphan_db (Some ''Bearer tok-a1'') = Next (user_view.truncate admin_c)"
  "owner_guard demo_verify orphan_db (Some ''Bearer tok-i2'') = Next (user_view.truncate instructor_b)"
  by (simp_all add: owner_guard_def and_then_def authorize_def protect_def verify_header_def
      startsWith_def bearer_tokens demo_verify_def orphan_db_def findUserById_def
      admin_c_def instructor_b_def user_view.truncate_def)

text \<open>
  Claim C5. On a course with a recorded owner, an instructor who is not the owner gets 403
  from the three routes and an admin passes the ownership test
  (\<open>non_owner_instructor_forbidden\<close>, \<open>admin_passes_owned_course\<close>). On a course
  without \<open>instructorId\<close>, which the schema allows, the ownership test throws before it
  looks at the role: an admin gets 500 from update, delete and statistics instead of
  succeeding, and an instructor gets 500 instead of 403.
\<close>

theorem ownerless_course_admin_gets_500:
  "put_course demo_verify (Some ''Bearer tok-a1'') [] Some orphan_db ''c1''
     = (Failure 500 ''Server error while updating course'', orphan_db)
   \<and> delete_course_route demo_verify (Some ''Bearer tok-a1'') orphan_db ''c1''
     = (Failure 500 ''Server error while deleting course'', orphan_db)
   \<and> get_stats_route demo_verify (Some ''Bearer tok-a1'') orphan_db ''c1''
     = (Failure 500 ''Server error while fetching course statistics'', orphan_db)
   \<and> put_course demo_verify (Some ''Bearer tok-i2'') [] Some orphan_db ''c1''
     = (Failure 500 ''Server error while updating course'', orphan_db)
   \<and> delete_course_route demo_verify (Some ''Bearer tok-i2'') orphan_db ''c1''
     = (Failure 500 ''Server error while deleting course'', orphan_db)
   \<and> get_stats_route demo_verify (Some ''Bearer tok-i2'') orphan_db ''c1''
     = (Failure 500 ''Server error while fetching course statistics'', orphan_db)"
proof -
  have c: "findCourseById orphan_db ''c1'' = Some (js_course\<lparr>instructorId := None\<rparr>)"
    by (simp add: findCourseById_def orphan_db_def js_course_def new_course_def)
  have n: "instructorId (js_course\<lparr>instructorId := None\<rparr>) = None"
    by simp
  show ?thesis
    by (simp add: put_course_def delete_course_route_def get_stats_route_def guarded_def
        owner_guard_staff ownerless_course_fails [OF c n])
qed

section \<open>Catalog queries: pagination, publication, ordering\<close>

lemma set_insert_doc: "set (insert_doc before x xs) = insert x (set xs)"
  by (induction xs) auto

lemma set_sort_docs: "set (sort_docs before xs) = set xs"
  by (induction xs) (simp_all add: sort_docs_def set_insert_doc)

lemma length_insert_doc: "length (insert_doc before x xs) = Suc (length xs)"
  by (induction xs) auto

lemma length_sort_docs: "length (sort_docs before xs) = length xs"
  by (induction xs) (simp_all add: sort_docs_def length_insert_doc)

lemma find_courses_published:
  "f_isPublished q = Some True \<Longrightarrow> c \<in> set (find_courses q d) \<Longrightarrow> isPublished c"
  by (simp add: find_courses_def matches_def holds_def)

lemma list_filter_published: "f_isPublished (list_filter lib q) = Some True"
  by (simp add: list_filter_def)

lemma isPublished_truncate: "isPublished (course_view.truncate c) = isPublished c"
  by (simp add: course_view.truncate_def)

lemma getFeatured_published: "c \<in> set (getFeatured d) \<Longrightarrow> isPublished c"
proof -
  assume "c \<in> set (getFeatured d)"
  then have "c \<in> set (find_courses
      (no_filter\<lparr>f_isFeatured := Some True, f_isPublished := Some True\<rparr>) d)"
    unfolding getFeatured_def by (auto dest: in_set_takeD simp: set_sort_docs)
  then show ?thesis by (rule find_courses_published [rotated]) simp
qed

lemma getByCategory_published: "c \<in> set (getByCategory cat d) \<Longrightarrow> isPublished c"
proof -
  assume "c \<in> set (getByCategory cat d)"
  then have "c \<in> set (find_courses
      (no_filter\<lparr>f_category := Some cat, f_isPublished := Some True\<rparr>) d)"
    unfolding getByCategory_def by (simp add: set_sort_docs)
  then show ?thesis by (rule find_courses_published [rotated]) simp
qed

lemma get_courses_published:
  assumes r: "get_courses lib q d = Reply st rep"
    and s: "\<forall>s xs. set (sort_by lib s xs) \<subseteq> set xs"
    and v: "v \<in> set (list_courses rep)"
  shows "isPublished v"
proof -
  let ?sort = "case q_sort q of None \<Rightarrow> ''-createdAt'' | Some s \<Rightarrow> s"
  let ?page = "case q_page q of None \<Rightarrow> 1 | Some s \<Rightarrow> to_number s"
  let ?limit = "case q_limit q of None \<Rightarrow> 12 | Some s \<Rightarrow> to_number s"
  let ?all = "sort_by lib ?sort (find_courses (list_filter lib q) d)"
  from r have "list_courses rep =
      map course_view.truncate (take (nat ?limit) (drop (nat ((?page - 1) * ?limit)) ?all))"
    by (auto simp: get_courses_def Let_def split: if_splits)
  with v obtain c where c: "c \<in> set (take (nat ?limit) (drop (nat ((?page - 1) * ?limit)) ?all))"
    and vc: "v = course_view.truncate c"
    by auto
  from c have "c \<in> set ?all" by (auto dest: in_set_takeD in_set_dropD)
  with s have "c \<in> set (find_courses (list_filter lib q) d)" by blast
  then have "isPublished c"
    by (rule find_courses_published [OF list_filter_published])
  with vc show ?thesis by (simp add: isPublished_truncate)
qed

lemma parse_samples:
  "parse_int ''2'' = Some 2" "parse_int ''5'' = Some 5" "parse_int ''100'' = Some 100"
  "parse_int ''50'' = Some 50" "parse_int ''0'' = Some 0" "parse_int ''abc'' = None"
  "parse_int ''-3'' = Some (-3)"
  by (simp_all add: parse_int_def is_digit_def digits_value_def digit_value_def Let_def)

lemma catalog_course_fields:
  "course_id (catalog_course cid created cat published featured) = cid"
  "createdAt (catalog_course cid created cat published featured) = created"
  "category (catalog_course cid created cat published featured) = cat"
  "isPublished (catalog_course cid created cat published featured) = published"
  "isFeatured (catalog_course cid created cat published featured) = featured"
  "rating (catalog_course cid created cat published featured) = \<lparr>average = 0, count = 0\<rparr>"
  "course_id (course_view.truncate (catalog_course cid created cat published featured)) = cid"
  by (simp_all add: catalog_course_def new_course_def course_view.truncate_def)

lemma published_catalog:
  "find_courses (no_filter\<lparr>f_isPublished := Some True\<rparr>) catalog_db =
     [catalog_course ''k01'' 1 ''Programming'' True True,
      catalog_course ''k02'' 2 ''Design'' True False,
      catalog_course ''k03'' 3 ''Programming'' True False,
      catalog_course ''k04'' 4 ''Music'' True False,
      catalog_course ''k06'' 6 ''Design'' True False,
      catalog_course ''k07'' 7 ''Business'' True False,
      catalog_course ''k08'' 8 ''Programming'' True True,
      catalog_course ''k09'' 9 ''Health'' True False,
      catalog_course ''k10'' 10 ''Science'' True False,
      catalog_course ''k11'' 11 ''Other'' True False,
      catalog_course ''k12'' 12 ''Language'' True False,
      catalog_course ''k13'' 13 ''Programming'' True False]"
  by (simp add: find_courses_def matches_def holds_def no_filter_def catalog_db_def
      catalog_course_fields)

lemma newest_catalog:
  "sort_docs newest_first
     [catalog_course ''k01'' 1 ''Programming'' True True,
      catalog_course ''k02'' 2 ''Design'' True False,
      catalog_course ''k03'' 3 ''Programming'' True False,
      catalog_course ''k04'' 4 ''Music'' True False,
      catalog_course ''k06'' 6 ''Design'' True False,
      catalog_course ''k07'' 7 ''Business'' True False,
      catalog_course ''k08'' 8 ''Programming'' True True,
      catalog_course ''k09'' 9 ''Health'' True False,
      catalog_course ''k10'' 10 ''Science'' True False,
      catalog_course ''k11'' 11 ''Other'' True False,
      catalog_course ''k12'' 12 ''Language'' True False,
      catalog_course ''k13'' 13 ''Programming'' True False]
   = [catalog_course ''k13'' 13 ''Programming'' True False,
      catalog_course ''k12'' 12 ''Language'' True False,
      catalog_course ''k11'' 11 ''Other'' True False,
      catalog_course ''k10'' 10 ''Science'' True False,
      catalog_course ''k09'' 9 ''Health'' True False,
      catalog_course ''k08'' 8 ''Programming'' True True,
      catalog_course ''k07'' 7 ''Business'' True False,
      catalog_course ''k06'' 6 ''Design'' True False,
      catalog_course ''k04'' 4 ''Music'' True False,
      catalog_course ''k03'' 3 ''Programming'' True False,
      catalog_course ''k02'' 2 ''Design'' True False,
      catalog_course ''k01'' 1 ''Programming'' True True]"
  by (simp add: sort_docs_def newest_first_def catalog_course_fields)

lemma isInt_bounds:
  "isInt (Some lo) hi s \<Longrightarrow> \<exists>v. parse_int s = Some v \<and> to_number s = v \<and> lo \<le> v \<and> holds (\<lambda>m. v \<le> m) hi"
  by (auto simp: isInt_def to_number_def holds_def split: option.splits)

lemma check_Nil: "check field valid msg = [] \<longleftrightarrow> (\<forall>v. field = Some v \<longrightarrow> valid v)"
  by (auto simp: check_def split: option.splits)

lemma list_errors_Nil:
  "list_errors lib q = [] \<Longrightarrow>
     (\<forall>s. q_limit q = Some s \<longrightarrow> isInt (Some 1) (Some 50) s)
     \<and> (\<forall>s. q_page q = Some s \<longrightarrow> isInt (Some 1) None s)"
  by (simp add: list_errors_def check_Nil)

lemma limit_rejected:
  assumes "q_limit q = Some s" and "\<not> isInt (Some 1) (Some 50) s"
  shows "get_courses lib q d = Failure 400 (join_with '', '' (list_errors lib q))"
    and "''Limit must be between 1 and 50'' \<in> set (list_errors lib q)"
proof -
  from assms show m: "''Limit must be between 1 and 50'' \<in> set (list_errors lib q)"
    by (simp add: list_errors_def check_def)
  then have "list_errors lib q \<noteq> []" by auto
  then show "get_courses lib q d = Failure 400 (join_with '', '' (list_errors lib q))"
    by (simp add: get_courses_def)
qed

lemma get_courses_valid:
  assumes "list_errors lib q = []"
  shows "get_courses lib q d =
     Reply 200
       \<lparr>list_count = length (take (nat (case q_limit q of None \<Rightarrow> 12 | Some s \<Rightarrow> to_number s))
            (drop (nat (((case q_page q of None \<Rightarrow> 1 | Some s \<Rightarrow> to_number s) - 1)
                         * (case q_limit q of None \<Rightarrow> 12 | Some s \<Rightarrow> to_number s)))
               (sort_by lib (case q_sort q of None \<Rightarrow> ''-createdAt'' | Some s \<Rightarrow> s)
                  (find_courses (list_filter lib q) d)))),
        list_total = length (find_courses (list_filter lib q) d),
        list_pages = nat \<lceil>(of_nat (length (find_courses (list_filter lib q) d)) :: rat)
                          / of_int (case q_limit q of None \<Rightarrow> 12 | Some s \<Rightarrow> to_number s)\<rceil>,
        list_currentPage = (case q_page q of None \<Rightarrow> 1 | Some s \<Rightarrow> to_number s),
        list_courses = map course_view.truncate
          (take (nat (case q_limit q of None \<Rightarrow> 12 | Some s \<Rightarrow> to_number s))
            (drop (nat (((case q_page q of None \<Rightarrow> 1 | Some s \<Rightarrow> to_number s) - 1)
                         * (case q_limit q of None \<Rightarrow> 12 | Some s \<Rightarrow> to_number s)))
               (sort_by lib (case q_sort q of None \<Rightarrow> ''-createdAt'' | Some s \<Rightarrow> s)
                  (find_courses (list_filter lib q) d))))\<rparr>"
  using assms by (simp add: get_courses_def Let_def)

lemma get_courses_page:
  assumes r: "get_courses lib q d = Reply st rep"
  shows "\<exists>page limit. 1 \<le> page \<and> 1 \<le> limit \<and> limit \<le> 50
            \<and> (q_limit q = None \<longrightarrow> limit = 12)
            \<and> (\<forall>s. q_limit q = Some s \<longrightarrow> parse_int s = Some limit)
            \<and> (q_page q = None \<longrightarrow> page = 1)
            \<and> (\<forall>s. q_page q = Some s \<longrightarrow> parse_int s = Some page)
            \<and> list_courses rep = map course_view.truncate
                 (take (nat limit) (drop (nat ((page - 1) * limit))
                    (sort_by lib (case q_sort q of None \<Rightarrow> ''-createdAt'' | Some s \<Rightarrow> s)
                       (find_courses (list_filter lib q) d))))
            \<and> list_count rep \<le> nat limit
            \<and> list_pages rep = nat \<lceil>(of_nat (length (find_courses (list_filter lib q) d)) :: rat)
                                      / of_int limit\<rceil>"
proof -
  let ?page = "case q_page q of None \<Rightarrow> 1 | Some s \<Rightarrow> to_number s"
  let ?limit = "case q_limit q of None \<Rightarrow> 12 | Some s \<Rightarrow> to_number s"
  from r have e: "list_errors lib q = []"
    by (auto simp: get_courses_def split: if_splits)
  note v = list_errors_Nil [OF e]
  have l: "1 \<le> ?limit \<and> ?limit \<le> 50 \<and> (q_limit q = None \<longrightarrow> ?limit = 12)
      \<and> (\<forall>s. q_limit q = Some s \<longrightarrow> parse_int s = Some ?limit)"
  proof (cases "q_limit q")
    case None
    then show ?thesis by simp
  next
    case (Some s)
    with v have "isInt (Some 1) (Some 50) s" by simp
    from isInt_bounds [OF this] Some show ?thesis by (auto simp: holds_def)
  qed
  have p: "1 \<le> ?page \<and> (q_page q = None \<longrightarrow> ?page = 1)
      \<and> (\<forall>s. q_page q = Some s \<longrightarrow> parse_int s = Some ?page)"
  proof (cases "q_page q")
    case None
    then show ?thesis by simp
  next
    case (Some s)
    with v have "isInt (Some 1) None s" by simp
    from isInt_bounds [OF this] Some show ?thesis by auto
  qed
  from r get_courses_valid [OF e, of d]
  have c: "list_courses rep = map course_view.truncate
                 (take (nat ?limit) (drop (nat ((?page - 1) * ?limit))
                    (sort_by lib (case q_sort q of None \<Rightarrow> ''-createdAt'' | Some s \<Rightarrow> s)
                       (find_courses (list_filter lib q) d))))"
    and n: "list_count rep \<le> nat ?limit"
    and g: "list_pages rep = nat \<lceil>(of_nat (length (find_courses (list_filter lib q) d)) :: rat)
                                      / of_int ?limit\<rceil>"
    by auto
  show ?thesis
    apply (rule exI [of _ ?page])
    apply (rule exI [of _ ?limit])
    using l p c n g by blast
qed

lemma take_drop_nth:
  "k + n \<le> length xs \<Longrightarrow> take n (drop k xs) = map (\<lambda>i. xs ! i) [k..<k + n]"
  by (auto simp: list_eq_iff_nth_eq)

lemma matches_published_only:
  "matches (no_filter\<lparr>f_isPublished := Some True\<rparr>) = isPublished"
  by (rule ext) (simp add: matches_def holds_def no_filter_def)

lemma plain_page_query:
  "list_errors lib (plain_query\<lparr>q_page := Some ''2'', q_limit := Some ''5''\<rparr>) = []"
  "find_courses (list_filter lib (plain_query\<lparr>q_page := Some ''2'', q_limit := Some ''5''\<rparr>)) d
     = filter isPublished (courses d)"
proof -
  show "list_errors lib (plain_query\<lparr>q_page := Some ''2'', q_limit := Some ''5''\<rparr>) = []"
    by (simp add: list_errors_def check_def isInt_def parse_samples holds_def plain_query_def)
  have "list_filter lib (plain_query\<lparr>q_page := Some ''2'', q_limit := Some ''5''\<rparr>)
          = no_filter\<lparr>f_isPublished := Some True\<rparr>"
    by (simp add: list_filter_def truthy_def plain_query_def no_filter_def)
  then show "find_courses (list_filter lib (plain_query\<lparr>q_page := Some ''2'', q_limit := Some ''5''\<rparr>)) d
     = filter isPublished (courses d)"
    by (simp add: find_courses_def matches_published_only)
qed

lemma page_two_of_twelve:
  assumes n: "length (filter isPublished (courses d)) = 12"
    and s: "\<forall>xs. length (sort_by lib ''-createdAt'' xs) = length xs"
  shows "\<exists>rep. get_courses lib (plain_query\<lparr>q_page := Some ''2'', q_limit := Some ''5''\<rparr>) d
                  = Reply 200 rep
           \<and> list_courses rep =
               map (\<lambda>i. course_view.truncate
                          (sort_by lib ''-createdAt'' (filter isPublished (courses d)) ! i)) [5..<10]
           \<and> list_count rep = 5 \<and> list_total rep = 12 \<and> list_pages rep = 3
           \<and> list_currentPage rep = 2"
proof -
  let ?q = "plain_query\<lparr>q_page := Some ''2'', q_limit := Some ''5''\<rparr>"
  let ?sorted = "sort_by lib ''-createdAt'' (filter isPublished (courses d))"
  have len: "length ?sorted = 12" using n s by simp
  have td: "take 5 (drop 5 ?sorted) = map (\<lambda>i. ?sorted ! i) [5..<5 + 5]"
    by (rule take_drop_nth) (simp add: len)
  have "\<lceil>(12 :: rat) / 5\<rceil> = 3"
    by (rule ceiling_unique) simp_all
  then have pg: "nat \<lceil>(12 :: rat) / 5\<rceil> = 3"
    by simp
  have q: "q_page ?q = Some ''2''" "q_limit ?q = Some ''5''" "q_sort ?q = None"
    by (simp_all add: plain_query_def)
  show ?thesis
    unfolding get_courses_valid [OF plain_page_query(1)] plain_page_query(2)
    by (simp add: q to_number_def parse_samples n len td pg)
qed

lemma demo_sort_by: "sort_by demo_lib spec = sort_docs newest_first"
  by (simp add: demo_lib_def)

lemma published_catalog_filter:
  "filter isPublished (courses catalog_db) =
     find_courses (no_filter\<lparr>f_isPublished := Some True\<rparr>) catalog_db"
  by (simp add: find_courses_def matches_published_only)

lemma page_two_catalog:
  "get_courses demo_lib (plain_query\<lparr>q_page := Some ''2'', q_limit := Some ''5''\<rparr>) catalog_db
     = Reply 200
         \<lparr>list_count = 5, list_total = 12, list_pages = 3, list_currentPage = 2,
          list_courses = map course_view.truncate
            [catalog_course ''k08'' 8 ''Programming'' True True,
             catalog_course ''k07'' 7 ''Business'' True False,
             catalog_course ''k06'' 6 ''Design'' True False,
             catalog_course ''k04'' 4 ''Music'' True False,
             catalog_course ''k03'' 3 ''Programming'' True False]\<rparr>"
proof -
  have "\<lceil>(12 :: rat) / 5\<rceil> = 3"
    by (rule ceiling_unique) simp_all
  then have pg: "nat \<lceil>(12 :: rat) / 5\<rceil> = 3"
    by simp
  have q: "q_page (plain_query\<lparr>q_page := Some ''2'', q_limit := Some ''5''\<rparr>) = Some ''2''"
    "q_limit (plain_query\<lparr>q_page := Some ''2'', q_limit := Some ''5''\<rparr>) = Some ''5''"
    "q_sort (plain_query\<lparr>q_page := Some ''2'', q_limit := Some ''5''\<rparr>) = None"
    by (simp_all add: plain_query_def)
  show ?thesis
    unfolding get_courses_valid [OF plain_page_query(1)] plain_page_query(2)
      published_catalog_filter published_catalog demo_sort_by newest_catalog
    by (simp add: q to_number_def parse_samples pg)
qed

text \<open>
  Claim C7 says the limit is clamped. The route validates it instead
  (\<^verbatim>\<open>isInt({min: 1, max: 50})\<close>) and answers 400 when the validation fails: a request
  with \<open>limit=100\<close>, for which clamping gives a page size of 50, is rejected, and is not
  answered like the request with \<open>limit=50\<close>.
\<close>

theorem limit_100_rejected_not_clamped:
  "spec_page_size (Some ''100'') = 50
   \<and> get_courses demo_lib (plain_query\<lparr>q_limit := Some ''100''\<rparr>) catalog_db
       = Failure 400 ''Limit must be between 1 and 50''
   \<and> get_courses demo_lib (plain_query\<lparr>q_limit := Some ''100''\<rparr>) catalog_db
       \<noteq> get_courses demo_lib (plain_query\<lparr>q_limit := Some ''50''\<rparr>) catalog_db"
proof -
  have a: "spec_page_size (Some ''100'') = 50"
    by (simp add: spec_page_size_def to_number_def parse_samples)
  have b: "get_courses demo_lib (plain_query\<lparr>q_limit := Some ''100''\<rparr>) catalog_db
       = Failure 400 ''Limit must be between 1 and 50''"
    by (simp add: get_courses_def list_errors_def check_def isInt_def parse_samples holds_def
        plain_query_def)
  have "list_errors demo_lib (plain_query\<lparr>q_limit := Some ''50''\<rparr>) = []"
    by (simp add: list_errors_def check_def isInt_def parse_samples holds_def plain_query_def)
  then have c: "\<exists>rep. get_courses demo_lib (plain_query\<lparr>q_limit := Some ''50''\<rparr>) catalog_db
       = Reply 200 rep"
    by (simp add: get_courses_def Let_def)
  from a b c show ?thesis by auto
qed

text \<open>
  Claim C7, amended. A request whose \<open>limit\<close> is not an integer from 1 to 50 is answered
  400 with the message ``Limit must be between 1 and 50''. Every request that is answered
  with a page used a page number of at least 1 and a page size from 1 to 50, the page
  size being 12 when \<open>limit\<close> is absent and the number given otherwise; the page holds
  at most that many courses, taken from the sorted matches after skipping the earlier
  pages. With 12 published courses and a database sort that keeps the number of
  documents, page 2 with limit 5 and no filter is answered with the courses at positions
  6 to 10 of the sorted published courses (indices 5 to 9), a total of 12 and 3 pages.
\<close>

theorem list_limit_validated:
  "(q_limit q1 = Some s \<and> \<not> isInt (Some 1) (Some 50) s
      \<longrightarrow> get_courses lib q1 d = Failure 400 (join_with '', '' (list_errors lib q1))
          \<and> ''Limit must be between 1 and 50'' \<in> set (list_errors lib q1))
   \<and> (get_courses lib q d = Reply st rep
      \<longrightarrow> (\<exists>page limit. 1 \<le> page \<and> 1 \<le> limit \<and> limit \<le> 50
            \<and> (q_limit q = None \<longrightarrow> limit = 12)
            \<and> (\<forall>s. q_limit q = Some s \<longrightarrow> parse_int s = Some limit)
            \<and> (q_page q = None \<longrightarrow> page = 1)
            \<and> (\<forall>s. q_page q = Some s \<longrightarrow> parse_int s = Some page)
            \<and> list_courses rep = map course_view.truncate
                 (take (nat limit) (drop (nat ((page - 1) * limit))
                    (sort_by lib (case q_sort q of None \<Rightarrow> ''-createdAt'' | Some s \<Rightarrow> s)
                       (find_courses (list_filter lib q) d))))
            \<and> list_count rep \<le> nat limit
            \<and> list_pages rep = nat \<lceil>(of_nat (length (find_courses (list_filter lib q) d)) :: rat)
                                      / of_int limit\<rceil>))
   \<and> (length (filter isPublished (courses d)) = 12
        \<and> (\<forall>xs. length (sort_by lib ''-createdAt'' xs) = length xs)
      \<longrightarrow> (\<exists>rep. get_courses lib (plain_query\<lparr>q_page := Some ''2'', q_limit := Some ''5''\<rparr>) d
                  = Reply 200 rep
           \<and> list_courses rep =
               map (\<lambda>i. course_view.truncate
                          (sort_by lib ''-createdAt'' (filter isPublished (courses d)) ! i)) [5..<10]
           \<and> list_count rep = 5 \<and> list_total rep = 12 \<and> list_pages rep = 3
           \<and> list_currentPage rep = 2))"
proof (intro conjI impI)
  assume a: "q_limit q1 = Some s \<and> \<not> isInt (Some 1) (Some 50) s"
  then show "get_courses lib q1 d = Failure 400 (join_with '', '' (list_errors lib q1))"
    using limit_rejected(1) by blast
  from a show "''Limit must be between 1 and 50'' \<in> set (list_errors lib q1)"
    using limit_rejected(2) by blast
next
  assume "get_courses lib q d = Reply st rep"
  then show "\<exists>page limit. 1 \<le> page \<and> 1 \<le> limit \<and> limit \<le> 50
            \<and> (q_limit q = None \<longrightarrow> limit = 12)
            \<and> (\<forall>s. q_limit q = Some s \<longrightarrow> parse_int s = Some limit)
            \<and> (q_page q = None \<longrightarrow> page = 1)
            \<and> (\<forall>s. q_page q = Some s \<longrightarrow> parse_int s = Some page)
            \<and> list_courses rep = map course_view.truncate
                 (take (nat limit) (drop (nat ((page - 1) * limit))
                    (sort_by lib (case q_sort q of None \<Rightarrow> ''-createdAt'' | Some s \<Rightarrow> s)
                       (find_courses (list_filter lib q) d))))
            \<and> list_count rep \<le> nat limit
            \<and> list_pages rep = nat \<lceil>(of_nat (length (find_courses (list_filter lib q) d)) :: rat)
                                      / of_int limit\<rceil>"
    by (rule get_courses_page)
next
  assume "length (filter isPublished (courses d)) = 12
        \<and> (\<forall>xs. length (sort_by lib ''-createdAt'' xs) = length xs)"
  then show "\<exists>rep. get_courses lib (plain_query\<lparr>q_page := Some ''2'', q_limit := Some ''5''\<rparr>) d
                  = Reply 200 rep
           \<and> list_courses rep =
               map (\<lambda>i. course_view.truncate
                          (sort_by lib ''-createdAt'' (filter isPublished (courses d)) ! i)) [5..<10]
           \<and> list_count rep = 5 \<and> list_total rep = 12 \<and> list_pages rep = 3
           \<and> list_currentPage rep = 2"
    using page_two_of_twelve [of d lib] by blast
qed

theorem list_limit_validated_witness:
  "q_limit (plain_query\<lparr>q_limit := Some ''0''\<rparr>) = Some ''0''
   \<and> \<not> isInt (Some 1) (Some 50) ''0''
   \<and> get_courses demo_lib (plain_query\<lparr>q_limit := Some ''0''\<rparr>) catalog_db
       = Failure 400 ''Limit must be between 1 and 50''
   \<and> length (filter isPublished (courses catalog_db)) = 12
   \<and> (\<forall>xs. length (sort_by demo_lib ''-createdAt'' xs) = length xs)
   \<and> get_courses demo_lib (plain_query\<lparr>q_page := Some ''2'', q_limit := Some ''5''\<rparr>) catalog_db
     = Reply 200
         \<lparr>list_count = 5, list_total = 12, list_pages = 3, list_currentPage = 2,
          list_courses = map course_view.truncate
            [catalog_course ''k08'' 8 ''Programming'' True True,
             catalog_course ''k07'' 7 ''Business'' True False,
             catalog_course ''k06'' 6 ''Design'' True False,
             catalog_course ''k04'' 4 ''Music'' True False,
             catalog_course ''k03'' 3 ''Programming'' True False]\<rparr>
   \<and> (\<exists>page limit. parse_int ''2'' = Some page \<and> parse_int ''5'' = Some limit
          \<and> 1 \<le> limit \<and> limit \<le> 50)"
proof -
  let ?bad = "plain_query\<lparr>q_limit := Some ''0''\<rparr>"
  let ?q = "plain_query\<lparr>q_page := Some ''2'', q_limit := Some ''5''\<rparr>"
  have h1: "q_limit ?bad = Some ''0'' \<and> \<not> isInt (Some 1) (Some 50) ''0''"
    by (simp add: plain_query_def isInt_def parse_samples holds_def)
  have e: "join_with '', '' (list_errors demo_lib ?bad) = ''Limit must be between 1 and 50''"
    by (simp add: list_errors_def check_def isInt_def parse_samples holds_def plain_query_def)
  have h3: "length (filter isPublished (courses catalog_db)) = 12
      \<and> (\<forall>xs. length (sort_by demo_lib ''-createdAt'' xs) = length xs)"
    by (simp add: published_catalog_filter published_catalog demo_sort_by length_sort_docs)
  have ql: "q_limit ?q = Some ''5''" "q_page ?q = Some ''2''"
    by (simp_all add: plain_query_def)
  from list_limit_validated [of ?bad "''0''" demo_lib catalog_db ?q 200 _ ] h1 e h3
    page_two_catalog ql
  show ?thesis by (auto simp: parse_samples)
qed

lemma rated_course_fields:
  "course_id (rated_course cid created avg n) = cid"
  "createdAt (rated_course cid created avg n) = created"
  "category (rated_course cid created avg n) = ''Programming''"
  "isPublished (rated_course cid created avg n) = True"
  "rating (rated_course cid created avg n) = \<lparr>average = avg, count = n\<rparr>"
  by (simp_all add: rated_course_def catalog_course_fields)

lemma featured_catalog:
  "getFeatured catalog_db =
     [catalog_course ''k08'' 8 ''Programming'' True True,
      catalog_course ''k01'' 1 ''Programming'' True True]"
  by (simp add: getFeatured_def find_courses_def matches_def holds_def no_filter_def
      catalog_db_def sort_docs_def newest_first_def catalog_course_fields)

lemma programming_catalog:
  "getByCategory ''Programming'' catalog_db =
     [catalog_course ''k13'' 13 ''Programming'' True False,
      catalog_course ''k08'' 8 ''Programming'' True True,
      catalog_course ''k03'' 3 ''Programming'' True False,
      catalog_course ''k01'' 1 ''Programming'' True True]"
  by (simp add: getByCategory_def find_courses_def matches_def holds_def no_filter_def
      catalog_db_def sort_docs_def rating_then_newest_def rating_less_def catalog_course_fields)

text \<open>
  Claim C8. Every course in a page of the list route is published, whatever the query,
  provided the database sort returns only documents it was given; so is every course
  that \<open>getFeatured\<close> and \<open>getByCategory\<close> return and that their routes answer with.
  None of the three routes has a caller: they run without authentication middleware.
\<close>

theorem only_published_courses_listed:
  "(get_courses lib q d = Reply st rep \<and> (\<forall>s xs. set (sort_by lib s xs) \<subseteq> set xs)
      \<longrightarrow> (\<forall>v \<in> set (list_courses rep). isPublished v))
   \<and> (\<forall>c \<in> set (getFeatured d). isPublished c)
   \<and> (\<forall>c \<in> set (getByCategory cat d). isPublished c)
   \<and> (get_featured d = Reply st1 (n1, cs1) \<longrightarrow> (\<forall>c \<in> set cs1. isPublished c))
   \<and> (get_category cat d = Reply st2 (cat2, n2, cs2) \<longrightarrow> (\<forall>c \<in> set cs2. isPublished c))"
  using get_courses_published [of lib q d st rep] getFeatured_published [of _ d]
    getByCategory_published [of _ cat d]
  by (auto simp: get_featured_def get_category_def Let_def)

theorem only_published_courses_listed_witness:
  "get_courses demo_lib (plain_query\<lparr>q_page := Some ''2'', q_limit := Some ''5''\<rparr>) catalog_db
     = Reply 200
         \<lparr>list_count = 5, list_total = 12, list_pages = 3, list_currentPage = 2,
          list_courses = map course_view.truncate
            [catalog_course ''k08'' 8 ''Programming'' True True,
             catalog_course ''k07'' 7 ''Business'' True False,
             catalog_course ''k06'' 6 ''Design'' True False,
             catalog_course ''k04'' 4 ''Music'' True False,
             catalog_course ''k03'' 3 ''Programming'' True False]\<rparr>
   \<and> (\<forall>s xs. set (sort_by demo_lib s xs) \<subseteq> set xs)
   \<and> list_all isPublished (map course_view.truncate
            [catalog_course ''k08'' 8 ''Programming'' True True,
             catalog_course ''k07'' 7 ''Business'' True False,
             catalog_course ''k06'' 6 ''Design'' True False,
             catalog_course ''k04'' 4 ''Music'' True False,
             catalog_course ''k03'' 3 ''Programming'' True False])
   \<and> get_featured catalog_db = Reply 200 (2, getFeatured catalog_db)
   \<and> map course_id (getFeatured catalog_db) = [''k08'', ''k01'']
   \<and> list_all isPublished (getFeatured catalog_db)
   \<and> get_category ''Programming'' catalog_db
       = Reply 200 (''Programming'', 4, getByCategory ''Programming'' catalog_db)
   \<and> map course_id (getByCategory ''Programming'' catalog_db) = [''k13'', ''k08'', ''k03'', ''k01'']
   \<and> list_all isPublished (getByCategory ''Programming'' catalog_db)"
proof -
  have s: "\<forall>s xs. set (sort_by demo_lib s xs) \<subseteq> set xs"
    by (simp add: demo_sort_by set_sort_docs)
  have f: "get_featured catalog_db = Reply 200 (2, getFeatured catalog_db)"
    by (simp add: get_featured_def featured_catalog)
  have c: "get_category ''Programming'' catalog_db
       = Reply 200 (''Programming'', 4, getByCategory ''Programming'' catalog_db)"
    by (simp add: get_category_def programming_catalog)
  have i: "map course_id (getFeatured catalog_db) = [''k08'', ''k01'']"
    "map course_id (getByCategory ''Programming'' catalog_db) = [''k13'', ''k08'', ''k03'', ''k01'']"
    by (simp_all add: featured_catalog programming_catalog catalog_course_fields)
  from only_published_courses_listed
    [of demo_lib "plain_query\<lparr>q_page := Some ''2'', q_limit := Some ''5''\<rparr>" catalog_db 200 _
        "''Programming''" 200 2 "getFeatured catalog_db" 200 "''Programming''" 4
        "getByCategory ''Programming'' catalog_db"]
    page_two_catalog s f c i
  show ?thesis by (simp add: list_all_iff)
qed

lemma sorted_wrt_insert_doc:
  assumes total: "\<And>x y. before x y \<or> before y x"
    and trans: "\<And>x y z. before x y \<Longrightarrow> before y z \<Longrightarrow> before x z"
  shows "sorted_wrt before xs \<Longrightarrow> sorted_wrt before (insert_doc before x xs)"
proof (induction xs)
  case Nil
  then show ?case by simp
next
  case (Cons y ys)
  show ?case
  proof (cases "before x y")
    case True
    with Cons.prems trans show ?thesis by auto
  next
    case False
    with total have "before y x" by blast
    with Cons False show ?thesis by (auto simp: set_insert_doc)
  qed
qed

lemma sorted_wrt_sort_docs:
  assumes total: "\<And>x y. before x y \<or> before y x"
    and trans: "\<And>x y z. before x y \<Longrightarrow> before y z \<Longrightarrow> before x z"
  shows "sorted_wrt before (sort_docs before xs)"
proof (induction xs)
  case Nil
  then show ?case by (simp add: sort_docs_def)
next
  case (Cons x xs)
  have "sort_docs before (x # xs) = insert_doc before x (sort_docs before xs)"
    by (simp add: sort_docs_def)
  with Cons sorted_wrt_insert_doc [of before, OF total trans] show ?case by simp
qed

lemma rating_then_newest_total: "rating_then_newest x y \<or> rating_then_newest y x"
  by (auto simp: rating_then_newest_def rating_less_def)

lemma rating_then_newest_trans:
  "rating_then_newest x y \<Longrightarrow> rating_then_newest y z \<Longrightarrow> rating_then_newest x z"
  unfolding rating_then_newest_def rating_less_def
  by (elim disjE conjE) (auto simp: not_less)

lemma getByCategory_sorted: "sorted_wrt rating_then_newest (getByCategory cat d)"
  unfolding getByCategory_def
  by (rule sorted_wrt_sort_docs) (use rating_then_newest_total rating_then_newest_trans in blast)+

lemma getByCategory_average_descending:
  "sorted_wrt (\<lambda>c c'. average (rating c') \<le> average (rating c)) (getByCategory cat d)"
  by (rule sorted_wrt_mono_rel [OF _ getByCategory_sorted])
    (auto simp: rating_then_newest_def rating_less_def)

lemma set_getByCategory:
  "set (getByCategory cat d) = {c \<in> set (courses d). category c = cat \<and> isPublished c}"
  by (auto simp: getByCategory_def set_sort_docs find_courses_def matches_def holds_def no_filter_def)

lemma tie_catalog:
  "getByCategory ''Programming'' tie_db = [rated_course ''old'' 1 4 10, rated_course ''new'' 2 4 2]"
  by (simp add: getByCategory_def find_courses_def matches_def holds_def no_filter_def
      tie_db_def sort_docs_def rating_then_newest_def rating_less_def rated_course_fields)

text \<open>
  Claim C9. \<open>getByCategory\<close> returns the published courses of the category
  (\<open>set_getByCategory\<close>) with the rating average descending
  (\<open>getByCategory_average_descending\<close>). Ties on the average are not broken by creation
  time, though: the sort key is the whole \<open>rating\<close> document, so the review count comes
  next. Of two published courses with average 4, the older one with 10 reviews is
  returned before the newer one with 2 reviews.
\<close>

theorem category_ties_ordered_by_count_first:
  "map course_id (getByCategory ''Programming'' tie_db) = [''old'', ''new'']
   \<and> map (\<lambda>c. average (rating c)) (getByCategory ''Programming'' tie_db) = [4, 4]
   \<and> map (\<lambda>c. count (rating c)) (getByCategory ''Programming'' tie_db) = [10, 2]
   \<and> map createdAt (getByCategory ''Programming'' tie_db) = [1, 2]"
proof -
  have found: "getByCategory ''Programming'' tie_db
      = [rated_course ''old'' 1 4 10, rated_course ''new'' 2 4 2]"
    by (rule tie_catalog)
  show ?thesis
    unfolding found by (simp add: rated_course_fields)
qed

section \<open>Signup and roles\<close>

lemma signup_errors_role: "signup_errors lib (body\<lparr>body_role := r\<rparr>) = signup_errors lib body"
  by (simp add: signup_errors_def)

lemma signup_ignores_role: "signup lib now d (body\<lparr>body_role := r\<rparr>) = signup lib now d body"
  by (simp add: signup_def signup_errors_role)

lemma create_user_role:
  "create_user lib d given = Some (u, d1) \<Longrightarrow> given_role given = None
     \<Longrightarrow> role u = Student \<and> users d1 = users d @ [u]"
  by (auto simp: create_user_def Let_def split: if_splits)

lemma create_user_given_role:
  "create_user lib d given = Some (u, d1) \<Longrightarrow> given_role given = Some s
     \<Longrightarrow> role_of_name s = Some (role u)"
  by (auto simp: create_user_def Let_def split: if_splits option.splits)

lemma signup_new_accounts:
  assumes "signup lib now d body = (resp, d')"
  shows "\<forall>u \<in> set (users d'). u \<in> set (users d) \<or> role u = Student"
proof (cases "signup_errors lib body \<noteq> []
      \<or> list_ex (\<lambda>u. email u = normalizeEmail lib (field_value (body_email body))) (users d)")
  case True
  with assms have "d' = d" by (auto simp: signup_def Let_def split: if_splits)
  then show ?thesis by simp
next
  case False
  show ?thesis
  proof (cases "create_user lib d
                  \<lparr>given_name = trim (field_value (body_name body)),
                   given_email = normalizeEmail lib (field_value (body_email body)),
                   given_password = field_value (body_password body), given_role = None\<rparr>")
    case None
    with False assms have "d' = d" by (simp add: signup_def Let_def)
    then show ?thesis by simp
  next
    case (Some p)
    obtain u d1 where p: "p = (u, d1)" by (cases p)
    from create_user_role [of lib d _ u d1] Some p
    have r: "role u = Student" and d1: "users d1 = users d @ [u]"
      by simp_all
    from False Some p assms
    have "d' = saveUser (u\<lparr>lastLogin := Some now\<rparr>) d1"
      by (simp add: signup_def Let_def updateLastLogin_def)
    with r d1 show ?thesis by (auto simp: saveUser_def)
  qed
qed

lemma signup_reply_role:
  assumes "signup lib now d body = (Reply st rep, d')"
  shows "st = 201 \<and> signup_role rep = Student"
proof -
  from assms obtain u d1 where
    c: "create_user lib d
                  \<lparr>given_name = trim (field_value (body_name body)),
                   given_email = normalizeEmail lib (field_value (body_email body)),
                   given_password = field_value (body_password body), given_role = None\<rparr>
          = Some (u, d1)"
    by (auto simp: signup_def Let_def split: if_splits option.splits)
  then have "role u = Student" using create_user_role [of lib d _ u d1] by simp
  with assms c show ?thesis
    by (auto simp: signup_def Let_def updateLastLogin_def split: if_splits)
qed

lemma signup_eager:
  "signup demo_auth 100 campus_db eager_body =
     (Reply 201 \<lparr>signup_message = ''User registered successfully'', signup_token = ''tok-u2'',
        signup_id = ''u2'', signup_name = ''Mallory'', signup_email = ''mallory@example.com'',
        signup_role = Student, signup_enrolledCourses = []\<rparr>,
      \<lparr>courses = [js_course],
       users = [student_a,
         \<lparr>user_id = ''u2'', name = ''Mallory'', email = ''mallory@example.com'', role = Student,
          enrolledCourses = [], completedCourses = [], isActive = True, lastLogin = Some 100,
          password = ''$2a$12$secret1''\<rparr>]\<rparr>)"
  by (simp add: signup_def signup_errors_def create_user_def updateLastLogin_def saveUser_def
      field_value_def trim_def is_space_def demo_auth_def eager_body_def campus_db_def
      student_a_def Let_def)

text \<open>
  Claim C10. Whatever the body holds, every account that signup adds to the database has
  role \<open>Student\<close>, a successful answer (201) reports that role, and replacing the
  \<open>role\<close> field of the body by any other value changes neither the answer nor the
  resulting database.
\<close>

theorem signup_role_is_student:
  "signup lib now d body = (resp, d') \<Longrightarrow>
     (\<forall>u \<in> set (users d'). u \<in> set (users d) \<or> role u = Student)
     \<and> (\<forall>st rep. resp = Reply st rep \<longrightarrow> st = 201 \<and> signup_role rep = Student)
     \<and> signup lib now d (body\<lparr>body_role := r\<rparr>) = (resp, d')"
  using signup_new_accounts [of lib now d body resp d'] signup_reply_role [of lib now d body _ _ d']
    signup_ignores_role [of lib now d r body]
  by auto

theorem signup_role_is_student_witness:
  "signup demo_auth 100 campus_db eager_body =
     (Reply 201 \<lparr>signup_message = ''User registered successfully'', signup_token = ''tok-u2'',
        signup_id = ''u2'', signup_name = ''Mallory'', signup_email = ''mallory@example.com'',
        signup_role = Student, signup_enrolledCourses = []\<rparr>, registered_db)
   \<and> body_role eager_body = Some ''admin''
   \<and> map role (users registered_db) = [Student, Student]
   \<and> signup demo_auth 100 campus_db (eager_body\<lparr>body_role := Some ''instructor''\<rparr>) =
     (Reply 201 \<lparr>signup_message = ''User registered successfully'', signup_token = ''tok-u2'',
        signup_id = ''u2'', signup_name = ''Mallory'', signup_email = ''mallory@example.com'',
        signup_role = Student, signup_enrolledCourses = []\<rparr>, registered_db)"
proof -
  have e: "signup demo_auth 100 campus_db eager_body =
     (Reply 201 \<lparr>signup_message = ''User registered successfully'', signup_token = ''tok-u2'',
        signup_id = ''u2'', signup_name = ''Mallory'', signup_email = ''mallory@example.com'',
        signup_role = Student, signup_enrolledCourses = []\<rparr>, registered_db)"
    using signup_eager by (simp add: registered_db_def)
  have r: "body_role eager_body = Some ''admin''"
    by (simp add: eager_body_def)
  have u: "map role (users registered_db) = [Student, Student]"
    by (simp add: registered_db_def student_a_def)
  from signup_role_is_student [OF e, of "Some ''instructor''"] e r u show ?thesis by simp
qed

end
